theory Spec2Isabelle
  imports Main
begin

section \<open>Strings and arrays\<close>

text \<open>\<^verbatim>\<open>String.prototype.startsWith\<close> and \<^verbatim>\<open>String.prototype.includes\<close>.\<close>

fun startsWith :: "string \<Rightarrow> string \<Rightarrow> bool" where
  "startsWith s [] = True"
| "startsWith [] (p # ps) = False"
| "startsWith (c # cs) (p # ps) = (c = p \<and> startsWith cs ps)"

fun includes_str :: "string \<Rightarrow> string \<Rightarrow> bool" where
  "includes_str [] t = (t = [])"
| "includes_str (c # cs) t = (startsWith (c # cs) t \<or> includes_str cs t)"

section \<open>Headers\<close>

text \<open>
  A header list, as a request or a response carries it. Header names are compared
  without regard to the case of ASCII letters. \<open>headers_get\<close> is \<^verbatim>\<open>Headers.get\<close>: the
  values of all headers of that name, joined by a comma and a space, or nothing when
  there is no such header.
\<close>

type_synonym header_list = "(string \<times> string) list"

definition to_lower :: "char \<Rightarrow> char" where
  "to_lower c =
     (case map_of (zip ''ABCDEFGHIJKLMNOPQRSTUVWXYZ'' ''abcdefghijklmnopqrstuvwxyz'') c of
        None \<Rightarrow> c
      | Some l \<Rightarrow> l)"

definition lowercase :: "string \<Rightarrow> string" where
  "lowercase s = map to_lower s"

fun join_values :: "string list \<Rightarrow> string" where
  "join_values [] = []"
| "join_values [v] = v"
| "join_values (v # w # vs) = v @ '', '' @ join_values (w # vs)"

definition headers_get :: "header_list \<Rightarrow> string \<Rightarrow> string option" where
  "headers_get hs name =
     (case map snd (filter (\<lambda>h. lowercase (fst h) = lowercase name) hs) of
        [] \<Rightarrow> None
      | v # vs \<Rightarrow> Some (join_values (v # vs)))"

text \<open>A comma-separated header value as the list of its non-empty elements, each without
  the blanks around it.\<close>

fun split_on :: "char \<Rightarrow> string \<Rightarrow> string list" where
  "split_on d [] = [[]]"
| "split_on d (c # cs) =
     (if c = d then [] # split_on d cs
      else (case split_on d cs of w # ws \<Rightarrow> (c # w) # ws | [] \<Rightarrow> [[c]]))"

definition trim :: "string \<Rightarrow> string" where
  "trim s =
     rev (dropWhile (\<lambda>c. c = CHR '' '' \<or> c = CHR 0x09)
            (rev (dropWhile (\<lambda>c. c = CHR '' '' \<or> c = CHR 0x09) s)))"

definition field_values :: "string \<Rightarrow> string list" where
  "field_values v = filter (\<lambda>f. f \<noteq> []) (map trim (split_on (CHR '','') v))"

section \<open>Responses, requests and the network\<close>

text \<open>
  The service worker \<^verbatim>\<open>static/sw.js\<close> sees three kinds of platform values: requests,
  responses and the cache storage of its origin. A response is a record of the fields the
  worker sets or reads; \<open>rtype\<close> is the Fetch API's \<^verbatim>\<open>Response.type\<close>, which the
  network decides and which \<^verbatim>\<open>sw.js\<close> never inspects. Bodies are byte strings (UTF-8).
  For a response the worker builds with \<^verbatim>\<open>new Response(body, init)\<close>, \<open>statusText\<close> is
  that of \<^verbatim>\<open>init\<close> (empty when \<^verbatim>\<open>init\<close> has none), the type is "default", and
  \<open>headers\<close> are those of \<^verbatim>\<open>init\<close>; when \<^verbatim>\<open>init\<close> names no content type and the body is
  a string, the platform adds \<^verbatim>\<open>content-type: text/plain;charset=UTF-8\<close>.
\<close>

datatype response_type = Basic | Cors | Default | Opaque

record response =
  status :: nat
  statusText :: string
  headers :: header_list
  body :: string
  rtype :: response_type

text \<open>\<^verbatim>\<open>Response.ok\<close>: the status is in the range 200 to 299.\<close>

definition ok :: "response \<Rightarrow> bool" where
  "ok r = (200 \<le> status r \<and> status r \<le> 299)"

text \<open>The names listed by the \<^verbatim>\<open>Vary\<close> header of a response, in lower case.\<close>

definition vary_fields :: "response \<Rightarrow> string list" where
  "vary_fields r =
     (case headers_get (headers r) ''vary'' of
        None \<Rightarrow> []
      | Some v \<Rightarrow> map lowercase (field_values v))"

definition vary_star :: "response \<Rightarrow> bool" where
  "vary_star r = (''*'' \<in> set (vary_fields r))"

text \<open>
  \<^verbatim>\<open>new URL(request.url)\<close>: the parsed components the worker reads. \<open>href\<close> is the
  serialised absolute URL, with its fragment if it has one.
\<close>

record URL =
  href :: string
  protocol :: string
  origin :: string
  pathname :: string

text \<open>A request as the fetch listener receives it; \<open>request_headers\<close> is the header list
  behind \<^verbatim>\<open>request.headers\<close>.\<close>

record request =
  "method" :: string
  url :: URL
  mode :: string
  request_headers :: header_list

text \<open>
  A rejected promise carries an exception. The network, at the moment of a request, is a
  function from the absolute URL of a GET request to the outcome of \<^verbatim>\<open>fetch\<close>: a
  rejection (the network is unreachable) or a response of any status.
\<close>

datatype exn = TypeError string | InvalidStateError string

type_synonym network = "string \<Rightarrow> exn + response"

definition fetch :: "network \<Rightarrow> request \<Rightarrow> exn + response" where
  "fetch net request = net (href (url request))"

section \<open>The cache storage\<close>

text \<open>
  A cache is its request-response list: each entry keeps the URL and the header list of
  the request it was stored for (the method of a stored request is always GET) and the
  response. The cache storage is the list of the named caches of the origin, in creation
  order. Storage operations are taken not to fail for lack of space, and one request is
  handled at a time: a \<^verbatim>\<open>cache.put\<close> that the source does not await has settled when
  the handler's result is looked at.
\<close>

record entry =
  entry_url :: string
  entry_headers :: header_list
  entry_response :: response

type_synonym cache = "entry list"
type_synonym cache_storage = "(string \<times> cache) list"

text \<open>
  When a request matches a cache entry (no option set): the two URLs are equal apart
  from their fragments, and for every name in the stored response's \<^verbatim>\<open>Vary\<close> header
  the stored request and the asking request have the same value; a \<^verbatim>\<open>Vary\<close> of
  \<^verbatim>\<open>*\<close> matches nothing. There is no matching by prefix or pattern.
\<close>

definition strip_fragment :: "string \<Rightarrow> string" where
  "strip_fragment u = takeWhile (\<lambda>c. c \<noteq> CHR ''#'') u"

definition request_matches :: "string \<Rightarrow> header_list \<Rightarrow> entry \<Rightarrow> bool" where
  "request_matches query_url query_headers e =
     (strip_fragment query_url = strip_fragment (entry_url e) \<and>
      list_all (\<lambda>f. f \<noteq> ''*'' \<and> headers_get (entry_headers e) f = headers_get query_headers f)
        (vary_fields (entry_response e)))"

text \<open>\<^verbatim>\<open>cache.match(request)\<close>: the response of the first entry the request matches; a
  request whose method is not GET matches nothing.\<close>

definition cache_match :: "cache \<Rightarrow> request \<Rightarrow> response option" where
  "cache_match c request =
     (if method request \<noteq> ''GET'' then None
      else (case filter (request_matches (href (url request)) (request_headers request)) c of
              [] \<Rightarrow> None
            | e # es \<Rightarrow> Some (entry_response e)))"

text \<open>
  \<^verbatim>\<open>cache.put(request, response)\<close> rejects, and stores nothing, when the request's
  method is not GET or its scheme is not http or https, when the response has status 206,
  or when its \<^verbatim>\<open>Vary\<close> header lists \<^verbatim>\<open>*\<close>. Otherwise every entry the request matches
  is removed and the new entry is appended.
\<close>

definition put_rejects :: "request \<Rightarrow> response \<Rightarrow> bool" where
  "put_rejects request r =
     (method request \<noteq> ''GET'' \<or>
      (protocol (url request) \<noteq> ''http:'' \<and> protocol (url request) \<noteq> ''https:'') \<or>
      status r = 206 \<or> vary_star r)"

definition new_entry :: "request \<Rightarrow> response \<Rightarrow> entry" where
  "new_entry request r =
     \<lparr>entry_url = href (url request), entry_headers = request_headers request,
      entry_response = r\<rparr>"

definition cache_put :: "request \<Rightarrow> response \<Rightarrow> cache \<Rightarrow> cache" where
  "cache_put request r c =
     (if put_rejects request r then c
      else filter (\<lambda>e. \<not> request_matches (href (url request)) (request_headers request) e) c
           @ [new_entry request r])"

text \<open>\<^verbatim>\<open>caches.keys\<close>, \<^verbatim>\<open>caches.open\<close> (creates the cache when there is none of that
  name) and \<^verbatim>\<open>caches.delete\<close>.\<close>

definition caches_keys :: "cache_storage \<Rightarrow> string list" where
  "caches_keys cs = map fst cs"

definition caches_open :: "string \<Rightarrow> cache_storage \<Rightarrow> cache_storage" where
  "caches_open name cs = (if name \<in> set (caches_keys cs) then cs else cs @ [(name, [])])"

definition caches_delete :: "string \<Rightarrow> cache_storage \<Rightarrow> cache_storage" where
  "caches_delete name cs = filter (\<lambda>e. fst e \<noteq> name) cs"

text \<open>
  \<^verbatim>\<open>caches.match(request)\<close>, called on the storage and not on one cache: the caches are
  searched in creation order and the first match is returned.
\<close>

fun caches_match :: "cache_storage \<Rightarrow> request \<Rightarrow> response option" where
  "caches_match [] request = None"
| "caches_match ((name, c) # cs) request =
     (case cache_match c request of Some r \<Rightarrow> Some r | None \<Rightarrow> caches_match cs request)"

text \<open>\<^verbatim>\<open>caches.open(name)\<close> followed by \<^verbatim>\<open>cache.put(request, response.clone())\<close> on
  the cache it returns. The source awaits the opening and not the put, so a rejected put
  goes unnoticed: the cache is opened and nothing is stored.\<close>

definition cache_put_in :: "string \<Rightarrow> request \<Rightarrow> response \<Rightarrow> cache_storage \<Rightarrow> cache_storage" where
  "cache_put_in name request r cs =
     map (\<lambda>e. if fst e = name then (fst e, cache_put request r (snd e)) else e) cs"

definition open_and_put :: "string \<Rightarrow> request \<Rightarrow> response \<Rightarrow> cache_storage \<Rightarrow> cache_storage" where
  "open_and_put name request r cs = cache_put_in name request r (caches_open name cs)"

text \<open>The entries of one named partition, and what \<^verbatim>\<open>cache.match\<close> finds in it, for
  stating properties.\<close>

definition partition_entries :: "cache_storage \<Rightarrow> string \<Rightarrow> entry list" where
  "partition_entries cs name = (case map_of cs name of None \<Rightarrow> [] | Some c \<Rightarrow> c)"

definition partition_lookup :: "cache_storage \<Rightarrow> string \<Rightarrow> request \<Rightarrow> response option" where
  "partition_lookup cs name request =
     (case map_of cs name of None \<Rightarrow> None | Some c \<Rightarrow> cache_match c request)"

section \<open>Effects\<close>

text \<open>
  Every handler returns, with its result and the new cache storage, the list of the
  platform calls it made, in order. A \<^verbatim>\<open>cache.put\<close> is listed as \<open>ECachePut\<close> when it
  stores and as \<open>ECachePutRejected\<close> when it rejects.
\<close>

datatype event =
    EFetch string
  | ECachesMatch string
  | ECachesOpen string
  | ECachePut string string
  | ECachePutRejected string string
  | ECacheAddAll string "string list"
  | ECachesKeys
  | ECachesDelete string
  | ESkipWaiting
  | EClientsClaim
  | EConsoleLog string
  | EConsoleError string

definition put_event :: "string \<Rightarrow> request \<Rightarrow> response \<Rightarrow> event" where
  "put_event name request r =
     (if put_rejects request r then ECachePutRejected name (href (url request))
      else ECachePut name (href (url request)))"

section \<open>Constants of \<^verbatim>\<open>sw.js\<close>\<close>

definition CACHE_VERSION :: string where
  "CACHE_VERSION = ''v2''"

definition STATIC_CACHE :: string where
  "STATIC_CACHE = ''tutorial-platform-static-'' @ CACHE_VERSION"

definition DYNAMIC_CACHE :: string where
  "DYNAMIC_CACHE = ''tutorial-platform-dynamic-'' @ CACHE_VERSION"

definition API_CACHE :: string where
  "API_CACHE = ''tutorial-platform-api-'' @ CACHE_VERSION"

definition STATIC_RESOURCES :: "string list" where
  "STATIC_RESOURCES =
   [''/'',
    ''/static/css/style.css'',
    ''/static/js/main.js'',
    ''/static/js/admin.js'',
    ''/static/favicon.ico'',
    ''/manifest.json'',
    ''/static/pwa-icons/icon-192x192.png'',
    ''/static/pwa-icons/icon-512x512.png'',
    ''https://cdn.jsdelivr.net/npm/bootstrap@5.3.0/dist/css/bootstrap.min.css'',
    ''https://cdn.jsdelivr.net/npm/bootstrap-icons@1.10.0/font/bootstrap-icons.css'',
    ''https://cdn.jsdelivr.net/npm/bootstrap@5.3.0/dist/js/bootstrap.bundle.min.js'',
    ''https://cdn.jsdelivr.net/npm/sortablejs@latest/Sortable.min.js'']"

section \<open>The offline fallback page\<close>

text \<open>The lines of the template literal of \<^verbatim>\<open>createOfflinePage\<close>, between its first
  and its last line break.\<close>

definition offline_page_lines :: "string list" where
  \<open>offline_page_lines =
   [
    ''    <!DOCTYPE html>'',
    ''    <html lang="en">'',
    ''    <head>'',
    ''        <meta charset="UTF-8">'',
    ''        <meta name="viewport" content="width=device-width, initial-scale=1.0">'',
    ''        <title>Offline - Tutorial Platform</title>'',
    ''        <style>'',
    ''            body { '',
    ''                font-family: Arial, sans-serif; '',
    ''                text-align: center; '',
    ''                padding: 2rem; '',
    ''                color: #333; '',
    ''                background: linear-gradient(135deg, #007bff 0%, #0056b3 100%);'',
    ''                min-height: 100vh;'',
    ''                margin: 0;'',
    ''                display: flex;'',
    ''                align-items: center;'',
    ''                justify-content: center;'',
    ''            }'',
    ''            .offline-container {'',
    ''                background: white;'',
    ''                padding: 3rem;'',
    ''                border-radius: 15px;'',
    ''                box-shadow: 0 10px 30px rgba(0,0,0,0.2);'',
    ''                max-width: 500px;'',
    ''            }'',
    ''            .offline-icon {'',
    ''                font-size: 4rem;'',
    ''                margin-bottom: 1rem;'',
    ''            }'',
    ''            h1 { color: #007bff; margin-bottom: 1rem; }'',
    ''            p { color: #666; line-height: 1.6; margin-bottom: 1.5rem; }'',
    ''            .btn {'',
    ''                background: #007bff;'',
    ''                color: white;'',
    ''                border: none;'',
    ''                padding: 12px 24px;'',
    ''                border-radius: 5px;'',
    ''                cursor: pointer;'',
    ''                text-decoration: none;'',
    ''                display: inline-block;'',
    ''                font-size: 1rem;'',
    ''            }'',
    ''            .btn:hover { background: #0056b3; }'',
    ''        </style>'',
    ''    </head>'',
    ''    <body>'',
    ''        <div class="offline-container">'',
    ''            <div class="offline-icon">'' @ [CHR 0xC3, CHR 0xB0, CHR 0xC5, CHR 0xB8, CHR 0xE2, CHR 0x80, CHR 0x9C, CHR 0xC5, CHR 0xA1] @ ''</div>'',
    ''            <h1>You're Offline</h1>'',
    ''            <p>It looks like you're not connected to the internet. Some content may not be available, but you can still access previously visited pages.</p>'',
    ''            <p>Once your connection is restored, you'll have access to all features.</p>'',
    ''            <button class="btn" onclick="window.location.reload()">Try Again</button>'',
    ''        </div>'',
    ''    </body>'',
    ''    </html>'']\<close>

definition offline_page_body :: string where
  "offline_page_body =
     [CHR 0x0A] @ concat (map (\<lambda>l. l @ [CHR 0x0A]) offline_page_lines) @ ''  ''"

definition createOfflinePage :: response where
  "createOfflinePage =
     \<lparr>status = 200, statusText = '''',
      headers = [(''Content-Type'', ''text/html'')],
      body = offline_page_body, rtype = Default\<rparr>"

section \<open>The caching strategies\<close>

text \<open>
  Each \<^verbatim>\<open>async function\<close> of \<^verbatim>\<open>sw.js\<close> returns a promise: \<open>Inr\<close> of the response
  it resolves to, or \<open>Inl\<close> of the exception it rejects with. The \<^verbatim>\<open>try\<close> block of a
  handler is the \<open>Inr\<close> branch of the fetch, its \<^verbatim>\<open>catch\<close> block the \<open>Inl\<close> branch.
\<close>

type_synonym outcome = "(exn + response) \<times> cache_storage \<times> event list"

text \<open>Cache First strategy for static resources.\<close>

definition handleStaticResource :: "network \<Rightarrow> request \<Rightarrow> cache_storage \<Rightarrow> outcome" where
  "handleStaticResource net request cs =
     (let k = href (url request) in
      case caches_match cs request of
        Some cachedResponse \<Rightarrow> (Inr cachedResponse, cs, [ECachesMatch k])
      | None \<Rightarrow>
          (case fetch net request of
             Inr networkResponse \<Rightarrow>
               if ok networkResponse
               then (Inr networkResponse, open_and_put STATIC_CACHE request networkResponse cs,
                     [ECachesMatch k, EFetch k, ECachesOpen STATIC_CACHE,
                      put_event STATIC_CACHE request networkResponse])
               else (Inr networkResponse, cs, [ECachesMatch k, EFetch k])
           | Inl error \<Rightarrow>
               (Inr \<lparr>status = 503, statusText = ''Service Unavailable'',
                     headers = [(''content-type'', ''text/plain;charset=UTF-8'')],
                     body = ''Resource not available offline'', rtype = Default\<rparr>,
                cs, [ECachesMatch k, EFetch k, EConsoleError ''Static resource failed:''])))"

text \<open>Network First strategy for API requests.\<close>

definition handleApiRequest :: "network \<Rightarrow> request \<Rightarrow> cache_storage \<Rightarrow> outcome" where
  \<open>handleApiRequest net request cs =
     (let k = href (url request) in
      case fetch net request of
        Inr networkResponse \<Rightarrow>
          if ok networkResponse
          then (Inr networkResponse, open_and_put API_CACHE request networkResponse cs,
                [EFetch k, ECachesOpen API_CACHE, put_event API_CACHE request networkResponse])
          else (Inr networkResponse, cs, [EFetch k])
      | Inl error \<Rightarrow>
          (case caches_match cs request of
             Some cachedResponse \<Rightarrow>
               (Inr cachedResponse, cs,
                [EFetch k, EConsoleLog ''API network failed, trying cache:'', ECachesMatch k])
           | None \<Rightarrow>
               (Inr \<lparr>status = 503, statusText = [],
                     headers = [(''Content-Type'', ''application/json'')],
                     body = ''{"error":"Offline - data not available"}'', rtype = Default\<rparr>,
                cs, [EFetch k, EConsoleLog ''API network failed, trying cache:'', ECachesMatch k])))\<close>

text \<open>Network First strategy for HTML navigation.\<close>

definition handleNavigationRequest :: "network \<Rightarrow> request \<Rightarrow> cache_storage \<Rightarrow> outcome" where
  "handleNavigationRequest net request cs =
     (let k = href (url request) in
      case fetch net request of
        Inr networkResponse \<Rightarrow>
          if ok networkResponse
          then (Inr networkResponse, open_and_put DYNAMIC_CACHE request networkResponse cs,
                [EFetch k, ECachesOpen DYNAMIC_CACHE, put_event DYNAMIC_CACHE request networkResponse])
          else (Inr networkResponse, cs, [EFetch k])
      | Inl error \<Rightarrow>
          (case caches_match cs request of
             Some cachedResponse \<Rightarrow>
               (Inr cachedResponse, cs,
                [EFetch k, EConsoleLog ''Navigation network failed, trying cache:'', ECachesMatch k])
           | None \<Rightarrow>
               (Inr createOfflinePage, cs,
                [EFetch k, EConsoleLog ''Navigation network failed, trying cache:'', ECachesMatch k])))"

text \<open>Dynamic resource handling.\<close>

definition handleDynamicResource :: "network \<Rightarrow> request \<Rightarrow> cache_storage \<Rightarrow> outcome" where
  "handleDynamicResource net request cs =
     (let k = href (url request) in
      case fetch net request of
        Inr networkResponse \<Rightarrow>
          if ok networkResponse
          then (Inr networkResponse, open_and_put DYNAMIC_CACHE request networkResponse cs,
                [EFetch k, ECachesOpen DYNAMIC_CACHE, put_event DYNAMIC_CACHE request networkResponse])
          else (Inr networkResponse, cs, [EFetch k])
      | Inl error \<Rightarrow>
          (case caches_match cs request of
             Some cachedResponse \<Rightarrow> (Inr cachedResponse, cs, [EFetch k, ECachesMatch k])
           | None \<Rightarrow>
               (Inr \<lparr>status = 503, statusText = [],
                     headers = [(''content-type'', ''text/plain;charset=UTF-8'')],
                     body = ''Content not available offline'', rtype = Default\<rparr>,
                cs, [EFetch k, ECachesMatch k])))"

section \<open>Classification and the fetch listener\<close>

text \<open>
  The four branches of \<^verbatim>\<open>handleRequest\<close>, in its order. \<open>self_origin\<close> is
  \<^verbatim>\<open>self.location.origin\<close>, the origin the worker is served from.
\<close>

datatype strategy = STATIC | API | NAVIGATION | DYNAMIC

definition classify :: "string \<Rightarrow> request \<Rightarrow> strategy" where
  "classify self_origin request =
     (if pathname (url request) \<in> set STATIC_RESOURCES \<or>
         startsWith (pathname (url request)) ''/static/'' \<or>
         origin (url request) \<noteq> self_origin
      then STATIC
      else if startsWith (pathname (url request)) ''/api/'' then API
      else if mode request = ''navigate'' \<or>
              (case headers_get (request_headers request) ''accept'' of
                 None \<Rightarrow> False
               | Some a \<Rightarrow> includes_str a ''text/html'')
      then NAVIGATION
      else DYNAMIC)"

definition handleRequest :: "string \<Rightarrow> network \<Rightarrow> request \<Rightarrow> cache_storage \<Rightarrow> outcome" where
  "handleRequest self_origin net request cs =
     (case classify self_origin request of
        STATIC \<Rightarrow> handleStaticResource net request cs
      | API \<Rightarrow> handleApiRequest net request cs
      | NAVIGATION \<Rightarrow> handleNavigationRequest net request cs
      | DYNAMIC \<Rightarrow> handleDynamicResource net request cs)"

text \<open>
  The fetch listener: a request that is not GET, or whose scheme is
  \<^verbatim>\<open>chrome-extension:\<close>, makes the listener return without \<^verbatim>\<open>respondWith\<close>, and the
  browser handles the request as if there were no worker; every other request is answered
  with the promise of \<^verbatim>\<open>handleRequest\<close>.
\<close>

datatype interception = NotIntercepted | RespondWith "exn + response"

definition fetch_listener ::
  "string \<Rightarrow> network \<Rightarrow> request \<Rightarrow> cache_storage \<Rightarrow> interception \<times> cache_storage \<times> event list" where
  "fetch_listener self_origin net request cs =
     (if method request \<noteq> ''GET'' \<or> protocol (url request) = ''chrome-extension:''
      then (NotIntercepted, cs, [])
      else (case handleRequest self_origin net request cs of
              (res, cs', evs) \<Rightarrow> (RespondWith res, cs', evs)))"

section \<open>Install and activate\<close>

text \<open>
  A manifest entry is a URL string, parsed against the worker's own location: an entry
  that starts with a slash is a path on the worker's origin, the other entries of the
  manifest are absolute URLs and stand for themselves.
\<close>

definition resolve_url :: "string \<Rightarrow> string \<Rightarrow> string" where
  "resolve_url self_origin u = (if startsWith u ''/'' then self_origin @ u else u)"

definition http_scheme :: "string \<Rightarrow> bool" where
  "http_scheme u = (startsWith u ''http://'' \<or> startsWith u ''https://'')"

text \<open>
  \<^verbatim>\<open>cache.addAll(urls)\<close> makes a GET request without headers of every URL and fetches
  it. It rejects when a URL is not http or https, when one fetch rejects, and when one
  response is not ok, has status 206 or has a \<^verbatim>\<open>Vary\<close> header listing \<^verbatim>\<open>*\<close>. The
  entries are written only when every response has arrived, one after the other as by
  \<^verbatim>\<open>put\<close>; a request that matches an entry written earlier in the same call makes the
  call reject. A rejected \<^verbatim>\<open>addAll\<close> leaves the cache as it was.
\<close>

definition addAll_accepts :: "response \<Rightarrow> bool" where
  "addAll_accepts r = (ok r \<and> status r \<noteq> 206 \<and> \<not> vary_star r)"

fun addAll_fetch :: "string \<Rightarrow> network \<Rightarrow> string list \<Rightarrow> exn + entry list" where
  "addAll_fetch self_origin net [] = Inr []"
| "addAll_fetch self_origin net (u # us) =
     (if \<not> http_scheme (resolve_url self_origin u)
      then Inl (TypeError ''Request scheme is unsupported'')
      else case net (resolve_url self_origin u) of
        Inl e \<Rightarrow> Inl e
      | Inr r \<Rightarrow>
          if addAll_accepts r
          then (case addAll_fetch self_origin net us of
                  Inl e \<Rightarrow> Inl e
                | Inr entries \<Rightarrow>
                    Inr (\<lparr>entry_url = resolve_url self_origin u, entry_headers = [],
                          entry_response = r\<rparr> # entries))
          else Inl (TypeError ''Request failed''))"

fun batch_put :: "entry list \<Rightarrow> entry list \<Rightarrow> cache \<Rightarrow> exn + cache" where
  "batch_put [] added c = Inr c"
| "batch_put (e # es) added c =
     (if filter (request_matches (entry_url e) (entry_headers e)) added \<noteq> []
      then Inl (InvalidStateError ''Duplicate request in batch'')
      else batch_put es (added @ [e])
             (filter (\<lambda>x. \<not> request_matches (entry_url e) (entry_headers e) x) c @ [e]))"

definition set_cache :: "string \<Rightarrow> cache \<Rightarrow> cache_storage \<Rightarrow> cache_storage" where
  "set_cache name c cs = map (\<lambda>e. if fst e = name then (fst e, c) else e) cs"

definition cache_addAll ::
  "string \<Rightarrow> string \<Rightarrow> network \<Rightarrow> string list \<Rightarrow> cache_storage \<Rightarrow> exn + cache_storage" where
  "cache_addAll name self_origin net urls cs =
     (case addAll_fetch self_origin net urls of
        Inl e \<Rightarrow> Inl e
      | Inr entries \<Rightarrow>
          (case batch_put entries [] (partition_entries cs name) of
             Inl e \<Rightarrow> Inl e
           | Inr c \<Rightarrow> Inr (set_cache name c cs)))"

text \<open>
  The promise given to \<^verbatim>\<open>event.waitUntil\<close> decides the install: fulfilled, the worker
  is installed; rejected, the install is aborted and the worker discarded.
\<close>

datatype install_result = Installed | InstallAborted

definition waitUntil :: "exn + unit \<Rightarrow> install_result" where
  "waitUntil p = (case p of Inr _ \<Rightarrow> Installed | Inl _ \<Rightarrow> InstallAborted)"

text \<open>
  The install listener. The chain is \<^verbatim>\<open>open.then(addAll).then(skipWaiting).catch(log)\<close>:
  a rejection of \<^verbatim>\<open>addAll\<close> skips the \<^verbatim>\<open>skipWaiting\<close> step and reaches the
  \<^verbatim>\<open>catch\<close>, whose handler logs and returns, so the chain is fulfilled on both paths.
\<close>

definition install :: "string \<Rightarrow> network \<Rightarrow> cache_storage \<Rightarrow> install_result \<times> cache_storage \<times> event list" where
  "install self_origin net cs =
     (let cs1 = caches_open STATIC_CACHE cs in
      case cache_addAll STATIC_CACHE self_origin net STATIC_RESOURCES cs1 of
        Inr cs2 \<Rightarrow>
          (waitUntil (Inr ()), cs2,
           [EConsoleLog ''Service Worker: Installing...'', ECachesOpen STATIC_CACHE,
            EConsoleLog ''Service Worker: Pre-caching app shell'',
            ECacheAddAll STATIC_CACHE STATIC_RESOURCES,
            EConsoleLog ''Service Worker: Skip waiting for activation'', ESkipWaiting])
      | Inl error \<Rightarrow>
          (waitUntil (Inr ()), cs1,
           [EConsoleLog ''Service Worker: Installing...'', ECachesOpen STATIC_CACHE,
            EConsoleLog ''Service Worker: Pre-caching app shell'',
            ECacheAddAll STATIC_CACHE STATIC_RESOURCES,
            EConsoleError ''Service Worker: Pre-caching failed'']))"

text \<open>
  The activate listener: every cache name returned by \<^verbatim>\<open>caches.keys\<close> that is none of
  the three current names is deleted; \<^verbatim>\<open>clients.claim\<close> is called beside it.
\<close>

fun purge :: "string list \<Rightarrow> cache_storage \<Rightarrow> cache_storage \<times> event list" where
  "purge [] cs = (cs, [])"
| "purge (cacheName # cacheNames) cs =
     (if cacheName \<noteq> STATIC_CACHE \<and> cacheName \<noteq> DYNAMIC_CACHE \<and> cacheName \<noteq> API_CACHE
      then (case purge cacheNames (caches_delete cacheName cs) of
              (cs', evs) \<Rightarrow>
                (cs', [EConsoleLog ''Service Worker: Clearing old cache'', ECachesDelete cacheName] @ evs))
      else purge cacheNames cs)"

definition activate :: "cache_storage \<Rightarrow> cache_storage \<times> event list" where
  "activate cs =
     (case purge (caches_keys cs) cs of
        (cs', evs) \<Rightarrow>
          (cs', [EConsoleLog ''Service Worker: Activating...'', ECachesKeys, EClientsClaim] @ evs))"

section \<open>The synthesised fallback responses\<close>

text \<open>
  The response each handler builds itself when the network is unreachable and no cache
  holds the request: the \<^verbatim>\<open>new Response(...)\<close> of the \<^verbatim>\<open>catch\<close> block of
  \<^verbatim>\<open>handleStaticResource\<close>, \<^verbatim>\<open>handleApiRequest\<close> and \<^verbatim>\<open>handleDynamicResource\<close>, and
  \<^verbatim>\<open>createOfflinePage()\<close> for \<^verbatim>\<open>handleNavigationRequest\<close>. Collected here to state
  properties; the handlers above build them in place.
\<close>

definition offline_fallback :: "strategy \<Rightarrow> response" where
  \<open>offline_fallback s =
     (case s of
        STATIC \<Rightarrow>
          \<lparr>status = 503, statusText = ''Service Unavailable'',
           headers = [(''content-type'', ''text/plain;charset=UTF-8'')],
           body = ''Resource not available offline'', rtype = Default\<rparr>
      | API \<Rightarrow>
          \<lparr>status = 503, statusText = [],
           headers = [(''Content-Type'', ''application/json'')],
           body = ''{"error":"Offline - data not available"}'', rtype = Default\<rparr>
      | NAVIGATION \<Rightarrow> createOfflinePage
      | DYNAMIC \<Rightarrow>
          \<lparr>status = 503, statusText = [],
           headers = [(''content-type'', ''text/plain;charset=UTF-8'')],
           body = ''Content not available offline'', rtype = Default\<rparr>)\<close>

text \<open>The partition each handler writes to.\<close>

definition partition_of :: "strategy \<Rightarrow> string" where
  "partition_of s =
     (case s of STATIC \<Rightarrow> STATIC_CACHE | API \<Rightarrow> API_CACHE
              | NAVIGATION \<Rightarrow> DYNAMIC_CACHE | DYNAMIC \<Rightarrow> DYNAMIC_CACHE)"

section \<open>Sample requests, responses and networks\<close>

text \<open>Concrete values at which the theorems below are instantiated.\<close>

definition ex_origin :: string where
  "ex_origin = ''https://learn.example''"

definition ex_api_request :: request where
  "ex_api_request =
     \<lparr>method = ''GET'',
      url = \<lparr>href = ''https://learn.example/api/progress'', protocol = ''https:'',
             origin = ''https://learn.example'', pathname = ''/api/progress''\<rparr>,
      mode = ''cors'', request_headers = [(''accept'', ''application/json'')]\<rparr>"

definition ex_post_request :: request where
  "ex_post_request =
     \<lparr>method = ''POST'',
      url = \<lparr>href = ''https://learn.example/api/progress'', protocol = ''https:'',
             origin = ''https://learn.example'', pathname = ''/api/progress''\<rparr>,
      mode = ''cors'', request_headers = [(''accept'', ''application/json'')]\<rparr>"

definition ex_static_request :: request where
  "ex_static_request =
     \<lparr>method = ''GET'',
      url = \<lparr>href = ''https://learn.example/static/css/style.css'', protocol = ''https:'',
             origin = ''https://learn.example'', pathname = ''/static/css/style.css''\<rparr>,
      mode = ''no-cors'', request_headers = [(''accept'', ''text/css,*/*;q=0.1'')]\<rparr>"

definition ex_media_request :: request where
  "ex_media_request =
     \<lparr>method = ''GET'',
      url = \<lparr>href = ''https://learn.example/static/videos/intro.mp4'', protocol = ''https:'',
             origin = ''https://learn.example'', pathname = ''/static/videos/intro.mp4''\<rparr>,
      mode = ''no-cors'', request_headers = [(''range'', ''bytes=0-'')]\<rparr>"

definition ex_cdn_request :: request where
  "ex_cdn_request =
     \<lparr>method = ''GET'',
      url = \<lparr>href = ''https://cdn.jsdelivr.net/npm/bootstrap@5.3.0/dist/css/bootstrap.min.css'',
             protocol = ''https:'', origin = ''https://cdn.jsdelivr.net'',
             pathname = ''/npm/bootstrap@5.3.0/dist/css/bootstrap.min.css''\<rparr>,
      mode = ''cors'', request_headers = [(''accept'', ''text/css,*/*;q=0.1'')]\<rparr>"

definition ex_nav_request :: request where
  "ex_nav_request =
     \<lparr>method = ''GET'',
      url = \<lparr>href = ''https://learn.example/module/1'', protocol = ''https:'',
             origin = ''https://learn.example'', pathname = ''/module/1''\<rparr>,
      mode = ''navigate'', request_headers = [(''accept'', ''text/html,application/xhtml+xml'')]\<rparr>"

definition ex_dyn_request :: request where
  "ex_dyn_request =
     \<lparr>method = ''GET'',
      url = \<lparr>href = ''https://learn.example/module/1'', protocol = ''https:'',
             origin = ''https://learn.example'', pathname = ''/module/1''\<rparr>,
      mode = ''cors'', request_headers = [(''accept'', ''*/*'')]\<rparr>"

definition ex_root_request :: request where
  "ex_root_request =
     \<lparr>method = ''GET'',
      url = \<lparr>href = ''https://learn.example/'', protocol = ''https:'',
             origin = ''https://learn.example'', pathname = ''/''\<rparr>,
      mode = ''navigate'', request_headers = [(''accept'', ''text/html,application/xhtml+xml'')]\<rparr>"

text \<open>The sample API request with a fragment, and with another \<^verbatim>\<open>Accept\<close> header.\<close>

definition ex_api_fragment_request :: request where
  "ex_api_fragment_request =
     \<lparr>method = ''GET'',
      url = \<lparr>href = ''https://learn.example/api/progress#latest'', protocol = ''https:'',
             origin = ''https://learn.example'', pathname = ''/api/progress''\<rparr>,
      mode = ''cors'', request_headers = [(''accept'', ''application/json'')]\<rparr>"

definition ex_api_text_request :: request where
  "ex_api_text_request =
     \<lparr>method = ''GET'',
      url = \<lparr>href = ''https://learn.example/api/progress'', protocol = ''https:'',
             origin = ''https://learn.example'', pathname = ''/api/progress''\<rparr>,
      mode = ''cors'', request_headers = [(''accept'', ''text/plain'')]\<rparr>"

definition ex_json :: response where
  \<open>ex_json =
     \<lparr>status = 200, statusText = ''OK'', headers = [(''content-type'', ''application/json'')],
      body = ''{"ok":true}'', rtype = Basic\<rparr>\<close>

definition ex_json_old :: response where
  \<open>ex_json_old =
     \<lparr>status = 200, statusText = ''OK'', headers = [(''content-type'', ''application/json'')],
      body = ''{"ok":false}'', rtype = Basic\<rparr>\<close>

text \<open>An answer that varies with the \<^verbatim>\<open>Accept\<close> header of the request.\<close>

definition ex_json_vary :: response where
  \<open>ex_json_vary =
     \<lparr>status = 200, statusText = ''OK'',
      headers = [(''content-type'', ''application/json''), (''vary'', ''Accept'')],
      body = ''{"ok":false}'', rtype = Basic\<rparr>\<close>

definition ex_error_500 :: response where
  "ex_error_500 =
     \<lparr>status = 500, statusText = ''Internal Server Error'', headers = [],
      body = ''Internal Server Error'', rtype = Basic\<rparr>"

text \<open>A partial answer to a range request, as a server gives for media.\<close>

definition ex_partial :: response where
  "ex_partial =
     \<lparr>status = 206, statusText = ''Partial Content'',
      headers = [(''content-type'', ''video/mp4''), (''content-range'', ''bytes 0-3/4'')],
      body = ''ftyp'', rtype = Basic\<rparr>"

definition ex_css :: response where
  "ex_css =
     \<lparr>status = 200, statusText = ''OK'', headers = [(''content-type'', ''text/css'')],
      body = ''body { margin: 0; }'', rtype = Basic\<rparr>"

definition ex_css_cors :: response where
  "ex_css_cors =
     \<lparr>status = 200, statusText = ''OK'', headers = [(''content-type'', ''text/css'')],
      body = ''.btn { display: inline-block; }'', rtype = Cors\<rparr>"

definition ex_page :: response where
  "ex_page =
     \<lparr>status = 200, statusText = ''OK'', headers = [(''content-type'', ''text/html'')],
      body = ''<html><body>Module 1</body></html>'', rtype = Basic\<rparr>"

text \<open>A network that is unreachable, and one that answers every request with one response.\<close>

definition net_down :: network where
  "net_down u = Inl (TypeError ''Failed to fetch'')"

definition net_const :: "response \<Rightarrow> network" where
  "net_const r u = Inr r"

text \<open>A network on which one CDN file of the manifest is unreachable, and one on which
  the favicon is answered with a partial response.\<close>

definition net_cdn_partial :: network where
  "net_cdn_partial u =
     (if u = ''https://cdn.jsdelivr.net/npm/sortablejs@latest/Sortable.min.js''
      then Inl (TypeError ''Failed to fetch'') else Inr ex_css)"

definition net_favicon_206 :: network where
  "net_favicon_206 u =
     (if u = ''https://learn.example/static/favicon.ico'' then Inr ex_partial else Inr ex_css)"

text \<open>A storage with the cache of the previous build beside a current partition.\<close>

definition ex_storage :: cache_storage where
  "ex_storage =
     [(''tutorial-platform-v1'', [new_entry ex_root_request ex_page]),
      (''tutorial-platform-static-v2'', [new_entry ex_static_request ex_css])]"

text \<open>Storages whose api partition holds an earlier answer to the sample API request.\<close>

definition ex_api_storage :: cache_storage where
  "ex_api_storage = [(''tutorial-platform-api-v2'', [new_entry ex_api_request ex_json_old])]"

definition ex_api_vary_storage :: cache_storage where
  "ex_api_vary_storage = [(''tutorial-platform-api-v2'', [new_entry ex_api_request ex_json_vary])]"

text \<open>An answer that forbids caching by a \<^verbatim>\<open>Vary\<close> header of \<^verbatim>\<open>*\<close>.\<close>

definition ex_json_vary_star :: response where
  \<open>ex_json_vary_star =
     \<lparr>status = 200, statusText = ''OK'',
      headers = [(''content-type'', ''application/json''), (''vary'', ''*'')],
      body = ''{"ok":true}'', rtype = Basic\<rparr>\<close>

text \<open>The request that \<^verbatim>\<open>caches.match('/static/css/style.css')\<close> makes of its
  argument: a GET request without headers.\<close>

definition ex_bare_style_request :: request where
  "ex_bare_style_request =
     \<lparr>method = ''GET'',
      url = \<lparr>href = ''https://learn.example/static/css/style.css'', protocol = ''https:'',
             origin = ''https://learn.example'', pathname = ''/static/css/style.css''\<rparr>,
      mode = ''cors'', request_headers = []\<rparr>"

section \<open>Facts about activation\<close>

lemma purge_filter:
  "fst (purge names cs) =
     filter (\<lambda>e. fst e \<notin> set names \<or> fst e = STATIC_CACHE \<or> fst e = DYNAMIC_CACHE \<or> fst e = API_CACHE) cs"
proof (induction names arbitrary: cs)
  case Nil
  then show ?case by simp
next
  case (Cons n names)
  show ?case
  proof (cases "n \<noteq> STATIC_CACHE \<and> n \<noteq> DYNAMIC_CACHE \<and> n \<noteq> API_CACHE")
    case True
    then have "fst (purge (n # names) cs) = fst (purge names (caches_delete n cs))"
      by (simp split: prod.splits)
    also have "\<dots> = filter (\<lambda>e. fst e \<notin> set names \<or> fst e = STATIC_CACHE \<or> fst e = DYNAMIC_CACHE \<or> fst e = API_CACHE)
                      (caches_delete n cs)"
      by (rule Cons.IH)
    also have "\<dots> = filter (\<lambda>e. fst e \<notin> set (n # names) \<or> fst e = STATIC_CACHE \<or> fst e = DYNAMIC_CACHE \<or> fst e = API_CACHE) cs"
      using True unfolding caches_delete_def filter_filter
      by (intro filter_cong) auto
    finally show ?thesis .
  next
    case False
    then have "fst (purge (n # names) cs) = fst (purge names cs)"
      by auto
    also have "\<dots> = filter (\<lambda>e. fst e \<notin> set names \<or> fst e = STATIC_CACHE \<or> fst e = DYNAMIC_CACHE \<or> fst e = API_CACHE) cs"
      by (rule Cons.IH)
    also have "\<dots> = filter (\<lambda>e. fst e \<notin> set (n # names) \<or> fst e = STATIC_CACHE \<or> fst e = DYNAMIC_CACHE \<or> fst e = API_CACHE) cs"
      using False by (intro filter_cong) auto
    finally show ?thesis .
  qed
qed

lemma activate_filter:
  "fst (activate cs) = filter (\<lambda>e. fst e \<in> {STATIC_CACHE, DYNAMIC_CACHE, API_CACHE}) cs"
proof -
  have "fst (activate cs) = fst (purge (caches_keys cs) cs)"
    by (simp add: activate_def split: prod.splits)
  also have "\<dots> = filter (\<lambda>e. fst e \<notin> set (caches_keys cs) \<or> fst e = STATIC_CACHE \<or> fst e = DYNAMIC_CACHE \<or> fst e = API_CACHE) cs"
    by (rule purge_filter)
  also have "\<dots> = filter (\<lambda>e. fst e \<in> {STATIC_CACHE, DYNAMIC_CACHE, API_CACHE}) cs"
    by (intro filter_cong) (auto simp: caches_keys_def)
  finally show ?thesis .
qed

lemma map_of_filter_fst:
  "map_of (filter (\<lambda>e. P (fst e)) xs) k = (if P k then map_of xs k else None)"
  by (induction xs) auto

section \<open>Facts about one cache\<close>

lemma new_entry_matches:
  "\<not> vary_star r \<Longrightarrow>
   request_matches (href (url request)) (request_headers request) (new_entry request r)"
  by (auto simp: request_matches_def new_entry_def vary_star_def list_all_iff)

lemma request_matches_url:
  "request_matches u hs e \<Longrightarrow> strip_fragment (entry_url e) = strip_fragment u"
  by (simp add: request_matches_def)

lemma cache_put_rejected: "put_rejects request r \<Longrightarrow> cache_put request r c = c"
  by (simp add: cache_put_def)

lemma cache_put_matching:
  assumes "\<not> put_rejects request r"
  shows "filter (request_matches (href (url request)) (request_headers request))
           (cache_put request r c) = [new_entry request r]"
proof -
  from assms have "\<not> vary_star r" by (simp add: put_rejects_def)
  then have "request_matches (href (url request)) (request_headers request) (new_entry request r)"
    by (rule new_entry_matches)
  with assms show ?thesis by (simp add: cache_put_def)
qed

lemma cache_put_others:
  "filter (\<lambda>e. \<not> request_matches (href (url request)) (request_headers request) e)
     (cache_put request r c) =
   filter (\<lambda>e. \<not> request_matches (href (url request)) (request_headers request) e) c"
proof (cases "put_rejects request r")
  case True
  then show ?thesis by (simp add: cache_put_rejected)
next
  case False
  then have "\<not> vary_star r" by (simp add: put_rejects_def)
  then have "request_matches (href (url request)) (request_headers request) (new_entry request r)"
    by (rule new_entry_matches)
  with False show ?thesis by (simp add: cache_put_def)
qed

lemma set_cache_put: "set (cache_put request r c) \<subseteq> insert (new_entry request r) (set c)"
  by (auto simp: cache_put_def)

lemma cache_put_last:
  "\<not> put_rejects request r \<Longrightarrow> last (cache_put request r c) = new_entry request r"
  by (simp add: cache_put_def)

lemma cache_match_cache_put:
  assumes "\<not> put_rejects request r"
  shows "cache_match (cache_put request r c) request = Some r"
proof -
  from assms have "method request = ''GET''" by (simp add: put_rejects_def)
  with cache_put_matching [OF assms, of c] show ?thesis
    by (simp add: cache_match_def new_entry_def)
qed

lemma cache_match_is_entry:
  assumes "cache_match c request = Some r"
  shows "\<exists>e. e \<in> set c \<and> entry_response e = r \<and>
             request_matches (href (url request)) (request_headers request) e"
proof -
  from assms obtain e es where
    f: "filter (request_matches (href (url request)) (request_headers request)) c = e # es"
    and r: "entry_response e = r"
    by (auto simp: cache_match_def split: if_splits list.splits)
  from f have "e \<in> set (filter (request_matches (href (url request)) (request_headers request)) c)"
    by simp
  with r show ?thesis by auto
qed

section \<open>Facts about the cache storage\<close>

lemma map_of_cache_put_in:
  "map_of (cache_put_in name request r cs) n =
     (if n = name then map_option (cache_put request r) (map_of cs n) else map_of cs n)"
  unfolding cache_put_in_def by (induction cs) auto

lemma map_of_caches_open:
  "map_of (caches_open name cs) n =
     (if n = name \<and> map_of cs name = None then Some [] else map_of cs n)"
proof (cases "name \<in> set (caches_keys cs)")
  case True
  then have "map_of cs name \<noteq> None"
    by (simp add: caches_keys_def map_of_eq_None_iff)
  with True show ?thesis by (simp add: caches_open_def)
next
  case False
  then have none: "map_of cs name = None"
    by (simp add: caches_keys_def map_of_eq_None_iff)
  from False have "map_of (caches_open name cs) n = map_of (cs @ [(name, [])]) n"
    by (simp add: caches_open_def)
  also have "\<dots> = (if n = name \<and> map_of cs name = None then Some [] else map_of cs n)"
    using none by (auto simp: map_add_def split: option.splits)
  finally show ?thesis .
qed

lemma caches_open_keys: "name \<in> set (caches_keys (caches_open name cs))"
  by (simp add: caches_open_def caches_keys_def)

lemma partition_entries_caches_open:
  "partition_entries (caches_open name cs) n = partition_entries cs n"
  by (simp add: partition_entries_def map_of_caches_open)

lemma open_and_put_rejected:
  assumes "put_rejects request r"
  shows "open_and_put name request r cs = caches_open name cs"
proof -
  have "map (\<lambda>e. if fst e = name then (fst e, cache_put request r (snd e)) else e) xs = xs" for xs
    using assms by (induction xs) (auto simp: cache_put_rejected)
  then show ?thesis by (simp add: open_and_put_def cache_put_in_def)
qed

lemma partition_entries_open_and_put:
  "partition_entries (open_and_put name request r cs) n =
     (if n = name then cache_put request r (partition_entries cs name)
      else partition_entries cs n)"
proof (cases "put_rejects request r")
  case True
  then show ?thesis
    by (simp add: open_and_put_rejected partition_entries_caches_open cache_put_rejected)
next
  case False
  show ?thesis
  proof (cases "map_of cs name")
    case None
    then show ?thesis
      by (simp add: partition_entries_def open_and_put_def map_of_cache_put_in map_of_caches_open)
  next
    case (Some c)
    then show ?thesis
      by (simp add: partition_entries_def open_and_put_def map_of_cache_put_in map_of_caches_open)
  qed
qed

lemma map_of_open_and_put:
  "map_of (open_and_put name request r cs) name =
     Some (cache_put request r (partition_entries cs name))"
  by (cases "map_of cs name")
     (simp_all add: open_and_put_def map_of_cache_put_in map_of_caches_open partition_entries_def)

lemma map_of_open_and_put_other:
  "n \<noteq> name \<Longrightarrow> map_of (open_and_put name request r cs) n = map_of cs n"
  by (simp add: open_and_put_def map_of_cache_put_in map_of_caches_open)

lemma partition_lookup_open_and_put:
  assumes "\<not> put_rejects request r"
  shows "partition_lookup (open_and_put name request r cs) name request = Some r"
  using assms by (simp add: partition_lookup_def map_of_open_and_put cache_match_cache_put)

lemma caches_match_append:
  "caches_match (xs @ ys) request =
     (case caches_match xs request of Some r \<Rightarrow> Some r | None \<Rightarrow> caches_match ys request)"
  by (induction xs) (auto split: option.splits)

lemma cache_match_Nil: "cache_match [] request = None"
  by (simp add: cache_match_def)

lemma caches_match_put_present:
  "caches_match cs request = None \<Longrightarrow> name \<in> set (caches_keys cs) \<Longrightarrow>
   \<not> put_rejects request r \<Longrightarrow>
   caches_match (cache_put_in name request r cs) request = Some r"
proof (induction cs)
  case Nil
  then show ?case by (simp add: caches_keys_def)
next
  case (Cons e cs)
  obtain n c where e: "e = (n, c)" by (cases e)
  from Cons.prems(1) e have c: "cache_match c request = None"
    and rest: "caches_match cs request = None"
    by (auto split: option.splits)
  show ?case
  proof (cases "n = name")
    case True
    with Cons.prems(3) show ?thesis
      by (simp add: e cache_put_in_def cache_match_cache_put)
  next
    case False
    with Cons.prems(2) e have "name \<in> set (caches_keys cs)"
      by (simp add: caches_keys_def)
    with Cons.IH rest Cons.prems(3)
    have "caches_match (cache_put_in name request r cs) request = Some r"
      by simp
    with False c show ?thesis
      by (simp add: e cache_put_in_def)
  qed
qed

lemma caches_match_open_and_put:
  assumes "caches_match cs request = None" and "\<not> put_rejects request r"
  shows "caches_match (open_and_put name request r cs) request = Some r"
proof -
  have "caches_match (caches_open name cs) request = None"
    using assms(1) by (simp add: caches_open_def caches_match_append cache_match_Nil)
  moreover have "name \<in> set (caches_keys (caches_open name cs))"
    by (rule caches_open_keys)
  ultimately show ?thesis
    unfolding open_and_put_def using assms(2) by (rule caches_match_put_present)
qed

lemma caches_match_is_entry:
  "caches_match cs request = Some r \<Longrightarrow>
   \<exists>name c e. (name, c) \<in> set cs \<and> e \<in> set c \<and> entry_response e = r \<and>
              request_matches (href (url request)) (request_headers request) e"
proof (induction cs)
  case Nil
  then show ?case by simp
next
  case (Cons x cs)
  obtain n c where x: "x = (n, c)" by (cases x)
  show ?case
  proof (cases "cache_match c request")
    case None
    with Cons x show ?thesis by auto
  next
    case (Some r')
    with Cons.prems x have "cache_match c request = Some r" by simp
    from cache_match_is_entry [OF this] x show ?thesis by auto
  qed
qed

lemma partition_lookup_caches_match:
  "partition_lookup cs name request = Some r \<Longrightarrow> \<exists>r'. caches_match cs request = Some r'"
proof (induction cs)
  case Nil
  then show ?case by (simp add: partition_lookup_def)
next
  case (Cons x cs)
  obtain n c where x: "x = (n, c)" by (cases x)
  show ?case
  proof (cases "cache_match c request")
    case (Some r')
    with x show ?thesis by simp
  next
    case None
    with Cons.prems x have "partition_lookup cs name request = Some r"
      by (auto simp: partition_lookup_def split: if_splits)
    with Cons.IH None x show ?thesis by simp
  qed
qed

section \<open>Facts about the handlers\<close>

lemma handleRequest_network_down:
  assumes "fetch net request = Inl e"
  shows "\<exists>evs. handleRequest self_origin net request cs =
           (Inr (case caches_match cs request of
                   Some c \<Rightarrow> c
                 | None \<Rightarrow> offline_fallback (classify self_origin request)), cs, evs)"
  using assms
  by (cases "classify self_origin request")
     (simp_all add: handleRequest_def handleStaticResource_def handleApiRequest_def
        handleNavigationRequest_def handleDynamicResource_def offline_fallback_def Let_def
        split: option.splits)

lemma handleRequest_network_response:
  assumes "fetch net request = Inr r"
  shows "\<exists>response cs' evs. handleRequest self_origin net request cs = (Inr response, cs', evs)"
  using assms
  by (cases "classify self_origin request")
     (simp_all add: handleRequest_def handleStaticResource_def handleApiRequest_def
        handleNavigationRequest_def handleDynamicResource_def Let_def
        split: option.splits)

lemma handleRequest_storage_cases:
  assumes "handleRequest self_origin net request cs = (res, cs', evs)"
  shows "cs' = cs \<and> (\<forall>name k. ECachePut name k \<notin> set evs \<and> ECachePutRejected name k \<notin> set evs)
         \<or> (\<exists>r. fetch net request = Inr r \<and> ok r \<and> res = Inr r
                 \<and> cs' = open_and_put (partition_of (classify self_origin request)) request r cs
                 \<and> (\<forall>name k. ECachePut name k \<in> set evs \<longrightarrow>
                       \<not> put_rejects request r \<and>
                       name = partition_of (classify self_origin request) \<and>
                       k = href (url request))
                 \<and> (\<forall>name k. ECachePutRejected name k \<in> set evs \<longrightarrow>
                       put_rejects request r \<and>
                       name = partition_of (classify self_origin request) \<and>
                       k = href (url request)))"
  using assms
  by (cases "classify self_origin request")
     (auto simp: handleRequest_def handleStaticResource_def handleApiRequest_def
        handleNavigationRequest_def handleDynamicResource_def Let_def partition_of_def
        put_event_def
        split: option.splits sum.splits if_splits)

section \<open>Facts about the pre-caching\<close>

lemma request_matches_plain:
  assumes "entry_headers a = []" and "\<not> vary_star (entry_response a)"
  shows "request_matches u [] a \<longleftrightarrow> strip_fragment u = strip_fragment (entry_url a)"
  using assms by (auto simp: request_matches_def vary_star_def list_all_iff)

lemma request_matches_cong:
  "strip_fragment u = strip_fragment u' \<Longrightarrow> request_matches u hs x = request_matches u' hs x"
  by (simp add: request_matches_def)

lemma addAll_fetch_entries:
  "addAll_fetch self_origin net us = Inr es \<Longrightarrow>
   (\<forall>u \<in> set us. http_scheme (resolve_url self_origin u) \<and>
      (\<exists>r. net (resolve_url self_origin u) = Inr r \<and> addAll_accepts r
           \<and> \<lparr>entry_url = resolve_url self_origin u, entry_headers = [], entry_response = r\<rparr> \<in> set es))
   \<and> (\<forall>e \<in> set es. entry_headers e = [] \<and> net (entry_url e) = Inr (entry_response e)
                     \<and> addAll_accepts (entry_response e))
   \<and> map entry_url es = map (resolve_url self_origin) us"
proof (induction us arbitrary: es)
  case Nil
  then show ?case by simp
next
  case (Cons u us)
  from Cons.prems obtain r es' where s: "http_scheme (resolve_url self_origin u)"
    and r: "net (resolve_url self_origin u) = Inr r" and acc: "addAll_accepts r"
    and rest: "addAll_fetch self_origin net us = Inr es'"
    and es: "es = \<lparr>entry_url = resolve_url self_origin u, entry_headers = [], entry_response = r\<rparr> # es'"
    by (auto split: sum.splits if_splits)
  from Cons.IH [OF rest] s r acc es show ?case by auto
qed

lemma addAll_fetch_all_ok:
  "\<forall>u \<in> set us. http_scheme (resolve_url self_origin u) \<and>
      (\<exists>r. net (resolve_url self_origin u) = Inr r \<and> addAll_accepts r) \<Longrightarrow>
   \<exists>es. addAll_fetch self_origin net us = Inr es"
  by (induction us) auto

lemma batch_put_ok:
  assumes "\<forall>e \<in> set es. entry_headers e = [] \<and> \<not> vary_star (entry_response e)"
      and "\<forall>e \<in> set added. entry_headers e = [] \<and> \<not> vary_star (entry_response e)"
      and "distinct (map (\<lambda>e. strip_fragment (entry_url e)) (added @ es))"
  shows "batch_put es added c =
           Inr (filter (\<lambda>x. \<forall>e \<in> set es. \<not> request_matches (entry_url e) (entry_headers e) x) c @ es)"
  using assms
proof (induction es arbitrary: added c)
  case Nil
  then show ?case by simp
next
  case (Cons e es)
  let ?m = "\<lambda>e x. request_matches (entry_url e) (entry_headers e) x"
  have he: "entry_headers e = []" using Cons.prems(1) by simp
  have no_conflict: "\<not> ?m e a" if "a \<in> set added" for a
  proof -
    from that Cons.prems(2) have "entry_headers a = []" "\<not> vary_star (entry_response a)" by auto
    then have "request_matches (entry_url e) [] a \<longleftrightarrow>
                 strip_fragment (entry_url e) = strip_fragment (entry_url a)"
      by (rule request_matches_plain)
    moreover from that Cons.prems(3)
    have "strip_fragment (entry_url e) \<noteq> strip_fragment (entry_url a)" by auto
    ultimately show ?thesis using he by simp
  qed
  then have f: "filter (?m e) added = []"
    by (auto simp: filter_empty_conv)
  have keep: "\<not> ?m e' e" if "e' \<in> set es" for e'
  proof -
    from that Cons.prems(1) have h': "entry_headers e' = []" by simp
    from Cons.prems(1) have "entry_headers e = []" "\<not> vary_star (entry_response e)" by auto
    then have "request_matches (entry_url e') [] e \<longleftrightarrow>
                 strip_fragment (entry_url e') = strip_fragment (entry_url e)"
      by (rule request_matches_plain)
    moreover from Cons.prems(3)
    have "strip_fragment (entry_url e) \<notin> (\<lambda>e. strip_fragment (entry_url e)) ` set es" by simp
    with that have "strip_fragment (entry_url e') \<noteq> strip_fragment (entry_url e)"
      by (metis image_eqI)
    ultimately show ?thesis using h' by simp
  qed
  have "batch_put (e # es) added c =
          batch_put es (added @ [e]) (filter (\<lambda>x. \<not> ?m e x) c @ [e])"
    using f by simp
  also have "\<dots> = Inr (filter (\<lambda>x. \<forall>e' \<in> set es. \<not> ?m e' x) (filter (\<lambda>x. \<not> ?m e x) c @ [e]) @ es)"
    using Cons.prems by (intro Cons.IH) auto
  also have "filter (\<lambda>x. \<forall>e' \<in> set es. \<not> ?m e' x) (filter (\<lambda>x. \<not> ?m e x) c @ [e]) @ es =
             filter (\<lambda>x. \<forall>e' \<in> set (e # es). \<not> ?m e' x) c @ e # es"
    using keep by (auto intro: filter_cong)
  finally show ?case .
qed

lemma cache_match_unique:
  assumes "method request = ''GET''"
      and "e \<in> set c"
      and "request_matches (href (url request)) (request_headers request) e"
      and "\<forall>x \<in> set c. request_matches (href (url request)) (request_headers request) x \<longrightarrow>
                        entry_response x = r"
  shows "cache_match c request = Some r"
proof -
  let ?f = "filter (request_matches (href (url request)) (request_headers request)) c"
  from assms(2,3) have "e \<in> set ?f" by simp
  then obtain x xs where f: "?f = x # xs" by (cases ?f) auto
  then have "x \<in> set ?f" by simp
  with assms(4) have "entry_response x = r" by simp
  with f assms(1) show ?thesis by (simp add: cache_match_def)
qed

lemma map_of_set_cache:
  "map_of (set_cache name c cs) n =
     (if n = name then map_option (\<lambda>_. c) (map_of cs n) else map_of cs n)"
  unfolding set_cache_def by (induction cs) auto

lemma caches_keys_set_cache: "caches_keys (set_cache name c cs) = caches_keys cs"
  by (simp add: caches_keys_def set_cache_def comp_def)

lemma map_of_opened_set_cache:
  "map_of (set_cache name c (caches_open name cs)) name = Some c"
proof -
  have "map_of (caches_open name cs) name \<noteq> None"
    using caches_open_keys [of name cs] by (simp add: caches_keys_def map_of_eq_None_iff)
  then show ?thesis by (auto simp: map_of_set_cache)
qed

lemma install_all_ok:
  assumes "\<forall>u \<in> set STATIC_RESOURCES. http_scheme (resolve_url self_origin u) \<and>
             (\<exists>r. net (resolve_url self_origin u) = Inr r \<and> addAll_accepts r)"
      and "distinct (map (\<lambda>u. strip_fragment (resolve_url self_origin u)) STATIC_RESOURCES)"
  shows "\<exists>es. addAll_fetch self_origin net STATIC_RESOURCES = Inr es
           \<and> install self_origin net cs =
               (Installed,
                set_cache STATIC_CACHE
                  (filter (\<lambda>x. \<forall>e \<in> set es. \<not> request_matches (entry_url e) (entry_headers e) x)
                     (partition_entries cs STATIC_CACHE) @ es)
                  (caches_open STATIC_CACHE cs),
                [EConsoleLog ''Service Worker: Installing...'', ECachesOpen STATIC_CACHE,
                 EConsoleLog ''Service Worker: Pre-caching app shell'',
                 ECacheAddAll STATIC_CACHE STATIC_RESOURCES,
                 EConsoleLog ''Service Worker: Skip waiting for activation'', ESkipWaiting])"
proof -
  from addAll_fetch_all_ok [OF assms(1)] obtain es
    where es: "addAll_fetch self_origin net STATIC_RESOURCES = Inr es" by blast
  from addAll_fetch_entries [OF es]
  have plain: "\<forall>e \<in> set es. entry_headers e = [] \<and> \<not> vary_star (entry_response e)"
    and urls: "map entry_url es = map (resolve_url self_origin) STATIC_RESOURCES"
    by (auto simp: addAll_accepts_def)
  have "map (\<lambda>e. strip_fragment (entry_url e)) es = map strip_fragment (map entry_url es)"
    by simp
  also have "\<dots> = map (\<lambda>u. strip_fragment (resolve_url self_origin u)) STATIC_RESOURCES"
    unfolding urls by simp
  finally have "distinct (map (\<lambda>e. strip_fragment (entry_url e)) ([] @ es))"
    using assms(2) by simp
  with plain have "batch_put es [] (partition_entries cs STATIC_CACHE) =
      Inr (filter (\<lambda>x. \<forall>e \<in> set es. \<not> request_matches (entry_url e) (entry_headers e) x)
             (partition_entries cs STATIC_CACHE) @ es)"
    by (intro batch_put_ok) simp_all
  with es show ?thesis
    by (simp add: install_def cache_addAll_def waitUntil_def Let_def partition_entries_caches_open)
qed

lemma install_some_rejected:
  assumes "\<not> (\<forall>u \<in> set STATIC_RESOURCES. http_scheme (resolve_url self_origin u) \<and>
                (\<exists>r. net (resolve_url self_origin u) = Inr r \<and> addAll_accepts r))"
  shows "install self_origin net cs =
           (Installed, caches_open STATIC_CACHE cs,
            [EConsoleLog ''Service Worker: Installing...'', ECachesOpen STATIC_CACHE,
             EConsoleLog ''Service Worker: Pre-caching app shell'',
             ECacheAddAll STATIC_CACHE STATIC_RESOURCES,
             EConsoleError ''Service Worker: Pre-caching failed''])"
proof (cases "addAll_fetch self_origin net STATIC_RESOURCES")
  case (Inl e)
  then show ?thesis
    by (simp add: install_def cache_addAll_def waitUntil_def Let_def)
next
  case (Inr es)
  from addAll_fetch_entries [OF Inr] assms show ?thesis by blast
qed

lemma precached_lookup:
  assumes plain: "\<forall>e \<in> set es. entry_headers e = [] \<and> \<not> vary_star (entry_response e)"
      and dist: "distinct (map (\<lambda>e. strip_fragment (entry_url e)) es)"
      and mem: "\<lparr>entry_url = u, entry_headers = [], entry_response = r\<rparr> \<in> set es"
      and get: "method request = ''GET''"
      and same: "strip_fragment (href (url request)) = strip_fragment u"
      and bare: "request_headers request = []"
  shows "cache_match
           (filter (\<lambda>x. \<forall>e \<in> set es. \<not> request_matches (entry_url e) (entry_headers e) x) c @ es)
           request = Some r"
proof -
  let ?e = "\<lparr>entry_url = u, entry_headers = [], entry_response = r\<rparr>"
  let ?c = "filter (\<lambda>x. \<forall>e \<in> set es. \<not> request_matches (entry_url e) (entry_headers e) x) c @ es"
  from plain mem have nostar: "\<not> vary_star r" by force
  have m: "request_matches (href (url request)) (request_headers request) ?e"
    using request_matches_plain [of ?e "href (url request)"] nostar same bare by simp
  have only: "entry_response x = r"
    if x: "x \<in> set ?c" and mx: "request_matches (href (url request)) (request_headers request) x" for x
  proof (cases "x \<in> set es")
    case True
    with plain have "entry_headers x = []" "\<not> vary_star (entry_response x)" by auto
    from request_matches_plain [OF this, of "href (url request)"] mx bare same
    have "strip_fragment (entry_url x) = strip_fragment (entry_url ?e)" by simp
    with dist True mem have "x = ?e"
      by (meson distinct_map inj_onD)
    then show ?thesis by simp
  next
    case False
    with x have "\<not> request_matches (entry_url ?e) (entry_headers ?e) x"
      using mem by auto
    then have "\<not> request_matches u [] x" by simp
    moreover from mx bare have "request_matches (href (url request)) [] x" by simp
    ultimately show ?thesis
      using request_matches_cong [OF same, of "[]" x] by simp
  qed
  have "?e \<in> set ?c" using mem by simp
  from cache_match_unique [OF get this m] only show ?thesis by blast
qed

section \<open>Evaluation at the samples\<close>

lemmas match_eval =
  cache_match_def request_matches_def new_entry_def strip_fragment_def vary_fields_def
  vary_star_def headers_get_def field_values_def trim_def lowercase_def to_lower_def
  put_rejects_def

lemma put_rejects_intercepted:
  assumes "method request = ''GET''"
      and "protocol (url request) = ''http:'' \<or> protocol (url request) = ''https:''"
  shows "put_rejects request r \<longleftrightarrow> status r = 206 \<or> vary_star r"
  using assms by (auto simp: put_rejects_def)

section \<open>Facts about the offline page\<close>

lemma offline_page_status: "status createOfflinePage = 200"
  by (simp add: createOfflinePage_def)

lemma offline_page_headers: "headers createOfflinePage = [(''Content-Type'', ''text/html'')]"
  by (simp add: createOfflinePage_def)

lemma offline_page_not_503: "createOfflinePage \<noteq> offline_fallback STATIC"
proof
  assume "createOfflinePage = offline_fallback STATIC"
  then have "status createOfflinePage = status (offline_fallback STATIC)" by simp
  then show False by (simp add: createOfflinePage_def offline_fallback_def)
qed


lemma caches_match_cong:
  assumes "method q = method q'"
      and "strip_fragment (href (url q)) = strip_fragment (href (url q'))"
      and "request_headers q = request_headers q'"
  shows "caches_match cs q = caches_match cs q'"
proof -
  have "request_matches (href (url q)) (request_headers q) =
        request_matches (href (url q')) (request_headers q')"
    using assms by (auto simp: request_matches_def fun_eq_iff)
  with assms(1) have "cache_match c q = cache_match c q'" for c
    by (simp add: cache_match_def)
  then show ?thesis by (induction cs) (auto split: option.splits)
qed

lemma caches_match_caches_open:
  "caches_match (caches_open name cs) request = caches_match cs request"
  by (simp add: caches_open_def caches_match_append cache_match_Nil split: option.splits)

lemma cache_match_exists:
  assumes "method request = ''GET''" and "e \<in> set c"
      and "request_matches (href (url request)) (request_headers request) e"
  shows "cache_match c request \<noteq> None"
proof -
  from assms(2,3)
  have "e \<in> set (filter (request_matches (href (url request)) (request_headers request)) c)"
    by simp
  then have "filter (request_matches (href (url request)) (request_headers request)) c \<noteq> []"
    by (metis empty_iff list.set(1))
  with assms(1) show ?thesis
    by (simp add: cache_match_def split: list.splits)
qed
lemma offline_page_message:
  \<open>includes_str (body createOfflinePage) ''<h1>You're Offline</h1>''\<close>
  by (simp add: createOfflinePage_def offline_page_body_def offline_page_lines_def)

lemma offline_page_retry:
  \<open>includes_str (body createOfflinePage)
     ''<button class="btn" onclick="window.location.reload()">Try Again</button>''\<close>
  by (simp add: createOfflinePage_def offline_page_body_def offline_page_lines_def)

lemma offline_page_self_contained:
  \<open>\<not> includes_str (body createOfflinePage) ''http'' \<and>
   \<not> includes_str (body createOfflinePage) ''src='' \<and>
   \<not> includes_str (body createOfflinePage) ''href='' \<and>
   \<not> includes_str (body createOfflinePage) ''url(''\<close>
  by (simp add: createOfflinePage_def offline_page_body_def offline_page_lines_def)


section \<open>Activation\<close>

text \<open>
  C4. Running the activate listener deletes every cache partition whose name is not one
  of the three names of the current version (static, dynamic, api), and leaves every
  partition with a current name as it was, entries included: the names left are the
  current names that were there, in their order; a current name maps to the same cache
  as before; any other name maps to nothing.
\<close>

theorem activate_purges_stale_partitions:
  "caches_keys (fst (activate cs)) =
     filter (\<lambda>name. name \<in> {STATIC_CACHE, DYNAMIC_CACHE, API_CACHE}) (caches_keys cs)
   \<and> (\<forall>name \<in> {STATIC_CACHE, DYNAMIC_CACHE, API_CACHE}.
         map_of (fst (activate cs)) name = map_of cs name)
   \<and> (\<forall>name. name \<notin> {STATIC_CACHE, DYNAMIC_CACHE, API_CACHE} \<longrightarrow>
         name \<notin> set (caches_keys (fst (activate cs))) \<and> map_of (fst (activate cs)) name = None)"
proof (intro conjI ballI allI impI)
  show "caches_keys (fst (activate cs)) =
     filter (\<lambda>name. name \<in> {STATIC_CACHE, DYNAMIC_CACHE, API_CACHE}) (caches_keys cs)"
    by (simp add: activate_filter caches_keys_def filter_map comp_def)
next
  fix name assume "name \<in> {STATIC_CACHE, DYNAMIC_CACHE, API_CACHE}"
  then show "map_of (fst (activate cs)) name = map_of cs name"
    unfolding activate_filter
    by (subst map_of_filter_fst [where P = "\<lambda>n. n \<in> {STATIC_CACHE, DYNAMIC_CACHE, API_CACHE}"]) simp
next
  fix name assume "name \<notin> {STATIC_CACHE, DYNAMIC_CACHE, API_CACHE}"
  then show "name \<notin> set (caches_keys (fst (activate cs)))"
    by (auto simp: activate_filter caches_keys_def)
next
  fix name assume "name \<notin> {STATIC_CACHE, DYNAMIC_CACHE, API_CACHE}"
  then show "map_of (fst (activate cs)) name = None"
    unfolding activate_filter
    by (subst map_of_filter_fst [where P = "\<lambda>n. n \<in> {STATIC_CACHE, DYNAMIC_CACHE, API_CACHE}"]) simp
qed

theorem activate_purges_stale_partitions_witness:
  "STATIC_CACHE \<in> {STATIC_CACHE, DYNAMIC_CACHE, API_CACHE}
   \<and> ''tutorial-platform-v1'' \<notin> {STATIC_CACHE, DYNAMIC_CACHE, API_CACHE}
   \<and> map_of ex_storage ''tutorial-platform-v1'' \<noteq> None
   \<and> caches_keys (fst (activate ex_storage)) = [STATIC_CACHE]
   \<and> map_of (fst (activate ex_storage)) STATIC_CACHE =
       Some [new_entry ex_static_request ex_css]
   \<and> map_of (fst (activate ex_storage)) ''tutorial-platform-v1'' = None"
  using activate_purges_stale_partitions [of ex_storage]
  by (simp add: ex_storage_def caches_keys_def STATIC_CACHE_def DYNAMIC_CACHE_def API_CACHE_def
      CACHE_VERSION_def)

section \<open>Requests that are not intercepted\<close>

text \<open>
  C8. A request whose method is not GET (POST, PUT, DELETE, ...) is not intercepted: the
  fetch listener returns without answering, so the request goes to the network as if
  there were no worker; the worker makes no platform call for it, so it is not looked up
  in any cache and nothing is stored, and the cache storage is left as it was.
\<close>

theorem non_get_not_intercepted:
  "method request \<noteq> ''GET'' \<Longrightarrow>
   fetch_listener self_origin net request cs = (NotIntercepted, cs, [])"
  by (simp add: fetch_listener_def)

theorem non_get_not_intercepted_witness:
  "method ex_post_request \<noteq> ''GET''
   \<and> fetch_listener ex_origin (net_const ex_json) ex_post_request ex_storage =
       (NotIntercepted, ex_storage, [])"
  using non_get_not_intercepted [of ex_post_request ex_origin "net_const ex_json" ex_storage]
  by (simp add: ex_post_request_def)

section \<open>Every intercepted request is answered\<close>

text \<open>
  C9. For every intercepted GET request the fetch handling resolves to a response and
  never rejects. When the network fetch fails, the failure is recovered inside the
  worker: the answer is the entry the caches hold under the request's key or, when there
  is none, the fallback response the request's strategy synthesises; the cache storage
  is left as it was.
\<close>

theorem intercepted_get_always_answered:
  assumes "method request = ''GET''"
      and "protocol (url request) \<noteq> ''chrome-extension:''"
  shows "\<exists>response cs' evs.
           fetch_listener self_origin net request cs = (RespondWith (Inr response), cs', evs)
           \<and> (\<forall>e. fetch net request = Inl e \<longrightarrow>
                  cs' = cs \<and>
                  (caches_match cs request = Some response \<or>
                   caches_match cs request = None \<and>
                   response = offline_fallback (classify self_origin request)))"
proof (cases "fetch net request")
  case (Inl e)
  from handleRequest_network_down [OF Inl, of self_origin cs]
  obtain evs where h: "handleRequest self_origin net request cs =
      (Inr (case caches_match cs request of
              Some c \<Rightarrow> c
            | None \<Rightarrow> offline_fallback (classify self_origin request)), cs, evs)"
    by blast
  with assms show ?thesis
    by (auto simp: fetch_listener_def split: option.splits)
next
  case (Inr r)
  from handleRequest_network_response [OF Inr, of self_origin cs]
  obtain response cs' evs where "handleRequest self_origin net request cs = (Inr response, cs', evs)"
    by blast
  with assms Inr show ?thesis
    by (simp add: fetch_listener_def)
qed

theorem intercepted_get_always_answered_witness:
  "method ex_nav_request = ''GET''
   \<and> protocol (url ex_nav_request) \<noteq> ''chrome-extension:''
   \<and> fetch net_down ex_nav_request = Inl (TypeError ''Failed to fetch'')
   \<and> (\<exists>response cs' evs.
         fetch_listener ex_origin net_down ex_nav_request ex_storage =
           (RespondWith (Inr response), cs', evs)
         \<and> cs' = ex_storage
         \<and> (caches_match ex_storage ex_nav_request = Some response \<or>
            caches_match ex_storage ex_nav_request = None \<and>
            response = offline_fallback (classify ex_origin ex_nav_request)))"
proof -
  have m: "method ex_nav_request = ''GET''"
    and p: "protocol (url ex_nav_request) \<noteq> ''chrome-extension:''"
    and f: "fetch net_down ex_nav_request = Inl (TypeError ''Failed to fetch'')"
    by (simp_all add: ex_nav_request_def fetch_def net_down_def)
  from intercepted_get_always_answered [OF m p, of ex_origin net_down ex_storage] f
  show ?thesis using m p by blast
qed

section \<open>A network response that is not 2xx\<close>



section \<open>What the strategies store\<close>

text \<open>
  C6, as stated, fails on the response type: the handlers test only
  \<^verbatim>\<open>networkResponse.ok\<close>. A request to the CDN is classified STATIC (its origin is not
  the worker's); the network answers 200 with a response of type "cors", and the handler
  stores it in the static partition although its type is not "basic".
\<close>

theorem cors_response_is_stored_counterexample:
  "classify ex_origin ex_cdn_request = STATIC
   \<and> fetch (net_const ex_css_cors) ex_cdn_request = Inr ex_css_cors
   \<and> ok ex_css_cors
   \<and> rtype ex_css_cors \<noteq> Basic
   \<and> partition_lookup
        (fst (snd (handleRequest ex_origin (net_const ex_css_cors) ex_cdn_request [])))
        STATIC_CACHE ex_cdn_request = Some ex_css_cors"
proof -
  have c: "classify ex_origin ex_cdn_request = STATIC"
    by (simp add: classify_def ex_cdn_request_def ex_origin_def)
  have f: "fetch (net_const ex_css_cors) ex_cdn_request = Inr ex_css_cors"
    and ok: "ok ex_css_cors" and t: "rtype ex_css_cors \<noteq> Basic"
    by (simp_all add: fetch_def net_const_def ok_def ex_css_cors_def)
  have p: "\<not> put_rejects ex_cdn_request ex_css_cors"
    by (simp add: put_rejects_def ex_cdn_request_def ex_css_cors_def vary_star_def
        vary_fields_def headers_get_def lowercase_def to_lower_def)
  have "fst (snd (handleRequest ex_origin (net_const ex_css_cors) ex_cdn_request [])) =
          open_and_put STATIC_CACHE ex_cdn_request ex_css_cors []"
    using c f ok by (simp add: handleRequest_def handleStaticResource_def Let_def)
  with p have "partition_lookup
        (fst (snd (handleRequest ex_origin (net_const ex_css_cors) ex_cdn_request [])))
        STATIC_CACHE ex_cdn_request = Some ex_css_cors"
    by (simp add: partition_lookup_open_and_put)
  with c f ok t show ?thesis by simp
qed

text \<open>
  C6, amended. For every cache partition and every entry, a strategy stores only
  responses whose status is 2xx, whatever their type: an entry found in a partition after
  a request was handled either was there before, or is the network's response to that
  request, with a 2xx status, stored for that request in the partition of the request's
  strategy; and what a lookup finds in a partition afterwards is the response of an entry
  that was there before, or that 2xx response. Storing is a full overwrite: whenever a
  handler's put stores, the partition afterwards holds exactly one entry that the request
  matches, and that entry is the whole new response.
\<close>

theorem only_2xx_responses_stored:
  assumes "handleRequest self_origin net request cs = (res, cs', evs)"
  shows "(\<forall>name e. e \<in> set (partition_entries cs' name) \<longrightarrow>
            e \<in> set (partition_entries cs name) \<or>
            name = partition_of (classify self_origin request) \<and>
            (\<exists>r. e = new_entry request r \<and> fetch net request = Inr r \<and> ok r))
         \<and> (\<forall>name q r. partition_lookup cs' name q = Some r \<longrightarrow>
              (\<exists>e \<in> set (partition_entries cs name). entry_response e = r) \<or>
              name = partition_of (classify self_origin request) \<and>
              request_matches (href (url q)) (request_headers q) (new_entry request r) \<and>
              fetch net request = Inr r \<and> ok r)
         \<and> (\<forall>name k. ECachePut name k \<in> set evs \<longrightarrow>
              (\<exists>r c. fetch net request = Inr r \<and> ok r
                     \<and> map_of cs' name = Some c
                     \<and> filter (request_matches (href (url request)) (request_headers request)) c =
                         [new_entry request r]
                     \<and> partition_lookup cs' name request = Some r))"
proof -
  let ?P = "partition_of (classify self_origin request)"
  have entries: "\<forall>name e. e \<in> set (partition_entries cs' name) \<longrightarrow>
            e \<in> set (partition_entries cs name) \<or>
            name = ?P \<and> (\<exists>r. e = new_entry request r \<and> fetch net request = Inr r \<and> ok r)"
    using handleRequest_storage_cases [OF assms]
  proof
    assume "cs' = cs \<and> (\<forall>name k. ECachePut name k \<notin> set evs \<and> ECachePutRejected name k \<notin> set evs)"
    then show ?thesis by simp
  next
    assume "\<exists>r. fetch net request = Inr r \<and> ok r \<and> res = Inr r
                 \<and> cs' = open_and_put ?P request r cs
                 \<and> (\<forall>name k. ECachePut name k \<in> set evs \<longrightarrow>
                       \<not> put_rejects request r \<and> name = ?P \<and> k = href (url request))
                 \<and> (\<forall>name k. ECachePutRejected name k \<in> set evs \<longrightarrow>
                       put_rejects request r \<and> name = ?P \<and> k = href (url request))"
    then obtain r where f: "fetch net request = Inr r" and ok: "ok r"
      and cs': "cs' = open_and_put ?P request r cs" by blast
    show ?thesis
    proof (intro allI impI)
      fix name e assume e: "e \<in> set (partition_entries cs' name)"
      show "e \<in> set (partition_entries cs name) \<or>
            name = ?P \<and> (\<exists>r. e = new_entry request r \<and> fetch net request = Inr r \<and> ok r)"
      proof (cases "name = ?P")
        case True
        with e have "e \<in> set (cache_put request r (partition_entries cs ?P))"
          by (simp add: cs' partition_entries_open_and_put)
        with set_cache_put have "e = new_entry request r \<or> e \<in> set (partition_entries cs ?P)"
          by blast
        with True f ok show ?thesis by blast
      next
        case False
        with e show ?thesis by (simp add: cs' partition_entries_open_and_put)
      qed
    qed
  qed
  have lookups: "(\<exists>e \<in> set (partition_entries cs name). entry_response e = r) \<or>
              name = ?P \<and>
              request_matches (href (url q)) (request_headers q) (new_entry request r) \<and>
              fetch net request = Inr r \<and> ok r"
    if "partition_lookup cs' name q = Some r" for name q r
  proof -
    from that obtain c where c: "map_of cs' name = Some c" and m: "cache_match c q = Some r"
      by (auto simp: partition_lookup_def split: option.splits)
    from cache_match_is_entry [OF m] obtain e where e: "e \<in> set c"
      and r: "entry_response e = r"
      and mq: "request_matches (href (url q)) (request_headers q) e" by blast
    from c e have "e \<in> set (partition_entries cs' name)"
      by (simp add: partition_entries_def)
    with entries have "e \<in> set (partition_entries cs name) \<or>
            name = ?P \<and> (\<exists>r. e = new_entry request r \<and> fetch net request = Inr r \<and> ok r)"
      by blast
    then show ?thesis
    proof
      assume "e \<in> set (partition_entries cs name)"
      with r show ?thesis by blast
    next
      assume "name = ?P \<and> (\<exists>r. e = new_entry request r \<and> fetch net request = Inr r \<and> ok r)"
      then obtain r0 where n: "name = ?P" and e0: "e = new_entry request r0"
        and f0: "fetch net request = Inr r0" and ok0: "ok r0" by blast
      from e0 r have "r0 = r" by (simp add: new_entry_def)
      with n e0 f0 ok0 mq show ?thesis by blast
    qed
  qed
  have puts: "\<exists>r c. fetch net request = Inr r \<and> ok r
                     \<and> map_of cs' name = Some c
                     \<and> filter (request_matches (href (url request)) (request_headers request)) c =
                         [new_entry request r]
                     \<and> partition_lookup cs' name request = Some r"
    if "ECachePut name k \<in> set evs" for name k
  proof -
    from handleRequest_storage_cases [OF assms] that
    obtain r where f: "fetch net request = Inr r" and ok: "ok r"
      and cs': "cs' = open_and_put ?P request r cs"
      and acc: "\<not> put_rejects request r" and n: "name = ?P"
      by blast
    have "map_of cs' name = Some (cache_put request r (partition_entries cs ?P))"
      by (simp add: cs' n map_of_open_and_put)
    moreover have "filter (request_matches (href (url request)) (request_headers request))
                     (cache_put request r (partition_entries cs ?P)) = [new_entry request r]"
      using acc by (rule cache_put_matching)
    moreover have "partition_lookup cs' name request = Some r"
      using acc by (simp add: cs' n partition_lookup_open_and_put)
    ultimately show ?thesis using f ok by blast
  qed
  from entries lookups puts show ?thesis by blast
qed

theorem only_2xx_responses_stored_witness:
  "partition_lookup
     (fst (snd (handleRequest ex_origin (net_const ex_json) ex_api_request ex_api_storage)))
     API_CACHE ex_api_request = Some ex_json
   \<and> partition_lookup ex_api_storage API_CACHE ex_api_request = Some ex_json_old
   \<and> ex_json \<noteq> ex_json_old
   \<and> API_CACHE = partition_of (classify ex_origin ex_api_request)
   \<and> fetch (net_const ex_json) ex_api_request = Inr ex_json \<and> ok ex_json
   \<and> ECachePut API_CACHE (href (url ex_api_request)) \<in>
        set (snd (snd (handleRequest ex_origin (net_const ex_json) ex_api_request ex_api_storage)))
   \<and> (\<exists>c. map_of (fst (snd (handleRequest ex_origin (net_const ex_json) ex_api_request
                                ex_api_storage))) API_CACHE = Some c
          \<and> filter (request_matches (href (url ex_api_request)) (request_headers ex_api_request)) c =
              [new_entry ex_api_request ex_json])"
proof -
  let ?h = "handleRequest ex_origin (net_const ex_json) ex_api_request ex_api_storage"
  have c: "classify ex_origin ex_api_request = API"
    by (simp add: classify_def ex_api_request_def ex_origin_def STATIC_RESOURCES_def
        headers_get_def lowercase_def to_lower_def)
  have f: "fetch (net_const ex_json) ex_api_request = Inr ex_json" and ok: "ok ex_json"
    by (simp_all add: fetch_def net_const_def ok_def ex_json_def)
  have acc: "\<not> put_rejects ex_api_request ex_json"
    by (simp add: put_rejects_def ex_api_request_def ex_json_def vary_star_def
        vary_fields_def headers_get_def lowercase_def to_lower_def)
  have m: "request_matches (href (url ex_api_request)) (request_headers ex_api_request)
             (new_entry ex_api_request ex_json_old)"
    by (rule new_entry_matches)
       (simp add: ex_json_old_def vary_star_def vary_fields_def headers_get_def lowercase_def
          to_lower_def)
  have old: "partition_lookup ex_api_storage API_CACHE ex_api_request = Some ex_json_old"
    using m
    by (simp add: partition_lookup_def ex_api_storage_def API_CACHE_def CACHE_VERSION_def
        cache_match_def new_entry_def)
       (simp add: ex_api_request_def)
  have ne: "ex_json \<noteq> ex_json_old"
    by (simp add: ex_json_def ex_json_old_def)
  have put: "ECachePut API_CACHE (href (url ex_api_request)) \<in> set (snd (snd ?h))"
    using c f ok acc by (simp add: handleRequest_def handleApiRequest_def Let_def put_event_def)
  have p: "?h = (fst ?h, fst (snd ?h), snd (snd ?h))"
    by simp
  from only_2xx_responses_stored [OF p] put f
  have "\<exists>c. map_of (fst (snd ?h)) API_CACHE = Some c
          \<and> filter (request_matches (href (url ex_api_request)) (request_headers ex_api_request)) c =
              [new_entry ex_api_request ex_json]
          \<and> partition_lookup (fst (snd ?h)) API_CACHE ex_api_request = Some ex_json"
    by fastforce
  with old ne c f ok put show ?thesis
    by (auto simp: partition_of_def)
qed

section \<open>API requests: network first\<close>

text \<open>
  C1, as stated, fails where the network answers with a status that is not 2xx: the claim
  sends that case to the cache lookup, the code returns the network's response. Here the
  api partition holds an earlier 200 answer for the request and the network answers 500:
  the handler returns the 500 response, not the cached entry. It fails as well on the
  copy: a 200 answer whose \<^verbatim>\<open>Vary\<close> header is \<^verbatim>\<open>*\<close> is returned, but the cache
  rejects it and the api partition holds nothing for the request afterwards.
\<close>

theorem api_non_2xx_no_cache_fallback_counterexample:
  "classify ex_origin ex_api_request = API
   \<and> fetch (net_const ex_error_500) ex_api_request = Inr ex_error_500
   \<and> \<not> ok ex_error_500
   \<and> caches_match ex_api_storage ex_api_request = Some ex_json_old
   \<and> fst (handleRequest ex_origin (net_const ex_error_500) ex_api_request ex_api_storage) =
       Inr ex_error_500
   \<and> fst (handleRequest ex_origin (net_const ex_error_500) ex_api_request ex_api_storage) \<noteq>
       Inr ex_json_old
   \<and> fetch (net_const ex_json_vary_star) ex_api_request = Inr ex_json_vary_star
   \<and> ok ex_json_vary_star
   \<and> fst (handleRequest ex_origin (net_const ex_json_vary_star) ex_api_request []) =
       Inr ex_json_vary_star
   \<and> partition_lookup
        (fst (snd (handleRequest ex_origin (net_const ex_json_vary_star) ex_api_request [])))
        API_CACHE ex_api_request = None"
proof -
  have c: "classify ex_origin ex_api_request = API"
    by (simp add: classify_def ex_api_request_def ex_origin_def STATIC_RESOURCES_def)
  have f: "fetch (net_const ex_error_500) ex_api_request = Inr ex_error_500"
    and n: "\<not> ok ex_error_500"
    by (simp_all add: fetch_def net_const_def ok_def ex_error_500_def)
  have m: "caches_match ex_api_storage ex_api_request = Some ex_json_old"
    by (simp add: ex_api_storage_def match_eval ex_api_request_def ex_json_old_def)
  have r: "fst (handleRequest ex_origin (net_const ex_error_500) ex_api_request ex_api_storage) =
             Inr ex_error_500"
    using c f n by (simp add: handleRequest_def handleApiRequest_def Let_def)
  have ne: "ex_error_500 \<noteq> ex_json_old"
    by (simp add: ex_error_500_def ex_json_old_def)
  have f2: "fetch (net_const ex_json_vary_star) ex_api_request = Inr ex_json_vary_star"
    and ok2: "ok ex_json_vary_star"
    by (simp_all add: fetch_def net_const_def ok_def ex_json_vary_star_def)
  have rej: "put_rejects ex_api_request ex_json_vary_star"
    by (simp add: match_eval ex_json_vary_star_def)
  have h2: "handleRequest ex_origin (net_const ex_json_vary_star) ex_api_request [] =
              (Inr ex_json_vary_star, caches_open API_CACHE [],
               [EFetch (href (url ex_api_request)), ECachesOpen API_CACHE,
                ECachePutRejected API_CACHE (href (url ex_api_request))])"
    using c f2 ok2 rej
    by (simp add: handleRequest_def handleApiRequest_def Let_def open_and_put_rejected
        put_event_def)
  have "partition_lookup (caches_open API_CACHE []) API_CACHE ex_api_request = None"
    by (simp add: partition_lookup_def caches_open_def caches_keys_def cache_match_Nil)
  with c f n m r ne f2 ok2 h2 show ?thesis by simp
qed

text \<open>
  C1, amended. For every request classified API the first platform call is the network
  fetch. When the fetch fails (the promise rejects), the handler falls back to one
  lookup with \<^verbatim>\<open>caches.match\<close> (over all caches; the URL compared whole apart from the
  fragment, the stored response's \<^verbatim>\<open>Vary\<close> honoured) and returns the entry found if
  there is one, otherwise a 503 response whose body is the JSON object with the single
  member "error"; the storage is left as it was. When the fetch succeeds with a 2xx
  status, that live response is returned; a copy is stored in the api partition for the
  request, where a lookup for the request then finds it, unless the cache rejects the put
  (for an intercepted request: the status is 206 or \<^verbatim>\<open>Vary\<close> lists \<^verbatim>\<open>*\<close>), in
  which case no partition gains or loses an entry. When the fetch completes with any
  other status, that response is returned as it is, the fetch is the only platform call
  (no cache lookup) and nothing is stored.
\<close>

theorem api_network_first:
  assumes "classify self_origin request = API"
      and "handleRequest self_origin net request cs = (res, cs', evs)"
  shows \<open>hd evs = EFetch (href (url request))
         \<and> (\<forall>e. fetch net request = Inl e \<longrightarrow>
               cs' = cs \<and>
               evs = [EFetch (href (url request)),
                      EConsoleLog ''API network failed, trying cache:'',
                      ECachesMatch (href (url request))] \<and>
               (case caches_match cs request of
                  Some c \<Rightarrow> res = Inr c
                | None \<Rightarrow> res = Inr (offline_fallback API)))
         \<and> (\<forall>r. fetch net request = Inr r \<and> ok r \<and> \<not> put_rejects request r \<longrightarrow>
               res = Inr r \<and>
               evs = [EFetch (href (url request)), ECachesOpen API_CACHE,
                      ECachePut API_CACHE (href (url request))] \<and>
               partition_lookup cs' API_CACHE request = Some r \<and>
               last (partition_entries cs' API_CACHE) = new_entry request r)
         \<and> (\<forall>r. fetch net request = Inr r \<and> ok r \<and> put_rejects request r \<longrightarrow>
               res = Inr r \<and>
               evs = [EFetch (href (url request)), ECachesOpen API_CACHE,
                      ECachePutRejected API_CACHE (href (url request))] \<and>
               (\<forall>name. partition_entries cs' name = partition_entries cs name))
         \<and> (\<forall>r. fetch net request = Inr r \<and> \<not> ok r \<longrightarrow>
               res = Inr r \<and> cs' = cs \<and> evs = [EFetch (href (url request))])
         \<and> (\<forall>r. method request = ''GET'' \<and>
                 (protocol (url request) = ''http:'' \<or> protocol (url request) = ''https:'') \<longrightarrow>
                 put_rejects request r = (status r = 206 \<or> vary_star r))
         \<and> status (offline_fallback API) = 503
         \<and> body (offline_fallback API) = ''{"error":"Offline - data not available"}''
         \<and> headers (offline_fallback API) = [(''Content-Type'', ''application/json'')]\<close>
proof -
  from assms have h: "handleApiRequest net request cs = (res, cs', evs)"
    by (simp add: handleRequest_def)
  have first: "hd evs = EFetch (href (url request))"
    using h by (auto simp: handleApiRequest_def Let_def split: sum.splits option.splits if_splits)
  have down: "cs' = cs \<and>
               evs = [EFetch (href (url request)),
                      EConsoleLog ''API network failed, trying cache:'',
                      ECachesMatch (href (url request))] \<and>
               (case caches_match cs request of
                  Some c \<Rightarrow> res = Inr c
                | None \<Rightarrow> res = Inr (offline_fallback API))"
    if "fetch net request = Inl e" for e
    using h that
    by (auto simp: handleApiRequest_def Let_def offline_fallback_def split: option.splits)
  have live: "res = Inr r \<and>
               evs = [EFetch (href (url request)), ECachesOpen API_CACHE,
                      ECachePut API_CACHE (href (url request))] \<and>
               partition_lookup cs' API_CACHE request = Some r \<and>
               last (partition_entries cs' API_CACHE) = new_entry request r"
    if "fetch net request = Inr r \<and> ok r \<and> \<not> put_rejects request r" for r
    using h that
    by (auto simp: handleApiRequest_def Let_def partition_lookup_open_and_put put_event_def
        partition_entries_open_and_put cache_put_last)
  have rejected: "res = Inr r \<and>
               evs = [EFetch (href (url request)), ECachesOpen API_CACHE,
                      ECachePutRejected API_CACHE (href (url request))] \<and>
               (\<forall>name. partition_entries cs' name = partition_entries cs name)"
    if "fetch net request = Inr r \<and> ok r \<and> put_rejects request r" for r
    using h that
    by (auto simp: handleApiRequest_def Let_def put_event_def open_and_put_rejected
        partition_entries_caches_open)
  have other: "res = Inr r \<and> cs' = cs \<and> evs = [EFetch (href (url request))]"
    if "fetch net request = Inr r \<and> \<not> ok r" for r
    using h that by (auto simp: handleApiRequest_def Let_def)
  have rej: "put_rejects request r = (status r = 206 \<or> vary_star r)"
    if "method request = ''GET'' \<and>
        (protocol (url request) = ''http:'' \<or> protocol (url request) = ''https:'')" for r
    using that put_rejects_intercepted [of request r] by blast
  have fb: \<open>status (offline_fallback API) = 503
         \<and> body (offline_fallback API) = ''{"error":"Offline - data not available"}''
         \<and> headers (offline_fallback API) = [(''Content-Type'', ''application/json'')]\<close>
    by (simp add: offline_fallback_def)
  from first down live rejected other rej fb show ?thesis by blast
qed

theorem api_network_first_witness:
  \<open>classify ex_origin ex_api_request = API
   \<and> fetch net_down ex_api_request = Inl (TypeError ''Failed to fetch'')
   \<and> caches_match ex_api_storage ex_api_request = Some ex_json_old
   \<and> fst (handleRequest ex_origin net_down ex_api_request ex_api_storage) = Inr ex_json_old
   \<and> caches_match [] ex_api_request = None
   \<and> fst (handleRequest ex_origin net_down ex_api_request []) = Inr (offline_fallback API)
   \<and> fetch (net_const ex_json) ex_api_request = Inr ex_json \<and> ok ex_json
   \<and> \<not> put_rejects ex_api_request ex_json
   \<and> fst (handleRequest ex_origin (net_const ex_json) ex_api_request ex_api_storage) = Inr ex_json
   \<and> partition_lookup
        (fst (snd (handleRequest ex_origin (net_const ex_json) ex_api_request ex_api_storage)))
        API_CACHE ex_api_request = Some ex_json
   \<and> fetch (net_const ex_json_vary_star) ex_api_request = Inr ex_json_vary_star
   \<and> ok ex_json_vary_star \<and> put_rejects ex_api_request ex_json_vary_star
   \<and> partition_entries
        (fst (snd (handleRequest ex_origin (net_const ex_json_vary_star) ex_api_request
                     ex_api_storage))) API_CACHE =
       partition_entries ex_api_storage API_CACHE
   \<and> fetch (net_const ex_error_500) ex_api_request = Inr ex_error_500 \<and> \<not> ok ex_error_500
   \<and> handleRequest ex_origin (net_const ex_error_500) ex_api_request ex_api_storage =
       (Inr ex_error_500, ex_api_storage, [EFetch (href (url ex_api_request))])
   \<and> classify ex_origin ex_api_fragment_request = API
   \<and> caches_match ex_api_storage ex_api_fragment_request = Some ex_json_old
   \<and> fst (handleRequest ex_origin net_down ex_api_fragment_request ex_api_storage) =
       Inr ex_json_old
   \<and> classify ex_origin ex_api_text_request = API
   \<and> caches_match ex_api_vary_storage ex_api_request = Some ex_json_vary
   \<and> caches_match ex_api_vary_storage ex_api_text_request = None
   \<and> fst (handleRequest ex_origin net_down ex_api_text_request ex_api_vary_storage) =
       Inr (offline_fallback API)\<close>
proof -
  have c: "classify ex_origin ex_api_request = API"
    and cf: "classify ex_origin ex_api_fragment_request = API"
    and ct: "classify ex_origin ex_api_text_request = API"
    by (simp_all add: classify_def ex_api_request_def ex_api_fragment_request_def
        ex_api_text_request_def ex_origin_def STATIC_RESOURCES_def)
  have hit: "caches_match ex_api_storage ex_api_request = Some ex_json_old"
    and hit_f: "caches_match ex_api_storage ex_api_fragment_request = Some ex_json_old"
    by (simp_all add: ex_api_storage_def match_eval ex_api_request_def
        ex_api_fragment_request_def ex_json_old_def)
  have hit_v: "caches_match ex_api_vary_storage ex_api_request = Some ex_json_vary"
    and miss_v: "caches_match ex_api_vary_storage ex_api_text_request = None"
    by (simp_all add: ex_api_vary_storage_def match_eval ex_api_request_def
        ex_api_text_request_def ex_json_vary_def)
  have miss: "caches_match [] ex_api_request = None"
    by simp
  have f_down: "\<And>q. fetch net_down q = Inl (TypeError ''Failed to fetch'')"
    by (simp add: fetch_def net_down_def)
  have f_ok: "fetch (net_const ex_json) ex_api_request = Inr ex_json" and ok: "ok ex_json"
    and acc: "\<not> put_rejects ex_api_request ex_json"
    by (simp_all add: fetch_def net_const_def ok_def ex_json_def match_eval ex_api_request_def)
  have f_star: "fetch (net_const ex_json_vary_star) ex_api_request = Inr ex_json_vary_star"
    and ok_star: "ok ex_json_vary_star"
    and rej: "put_rejects ex_api_request ex_json_vary_star"
    by (simp_all add: fetch_def net_const_def ok_def ex_json_vary_star_def match_eval)
  have f_500: "fetch (net_const ex_error_500) ex_api_request = Inr ex_error_500"
    and n500: "\<not> ok ex_error_500"
    by (simp_all add: fetch_def net_const_def ok_def ex_error_500_def)
  have p: "\<And>net q cs. handleRequest ex_origin net q cs =
      (fst (handleRequest ex_origin net q cs),
       fst (snd (handleRequest ex_origin net q cs)),
       snd (snd (handleRequest ex_origin net q cs)))"
    by simp
  note t1 = api_network_first [OF c p [of net_down ex_api_request ex_api_storage]]
  note t2 = api_network_first [OF c p [of net_down ex_api_request "[]"]]
  note t3 = api_network_first [OF c p [of "net_const ex_json" ex_api_request ex_api_storage]]
  note t4 = api_network_first [OF c p [of "net_const ex_error_500" ex_api_request ex_api_storage]]
  note t5 = api_network_first [OF c p [of "net_const ex_json_vary_star" ex_api_request ex_api_storage]]
  note t6 = api_network_first [OF cf p [of net_down ex_api_fragment_request ex_api_storage]]
  note t7 = api_network_first [OF ct p [of net_down ex_api_text_request ex_api_vary_storage]]
  from t1 f_down hit
  have r1: "fst (handleRequest ex_origin net_down ex_api_request ex_api_storage) = Inr ex_json_old"
    by (auto split: option.splits)
  from t2 f_down miss
  have r2: "fst (handleRequest ex_origin net_down ex_api_request []) = Inr (offline_fallback API)"
    by (auto split: option.splits)
  from t3 f_ok ok acc
  have r3: "fst (handleRequest ex_origin (net_const ex_json) ex_api_request ex_api_storage) = Inr ex_json"
    and r4: "partition_lookup
        (fst (snd (handleRequest ex_origin (net_const ex_json) ex_api_request ex_api_storage)))
        API_CACHE ex_api_request = Some ex_json"
    by blast+
  from t4 f_500 n500
  have "fst (handleRequest ex_origin (net_const ex_error_500) ex_api_request ex_api_storage) =
          Inr ex_error_500"
    and "fst (snd (handleRequest ex_origin (net_const ex_error_500) ex_api_request ex_api_storage)) =
          ex_api_storage"
    and "snd (snd (handleRequest ex_origin (net_const ex_error_500) ex_api_request ex_api_storage)) =
          [EFetch (href (url ex_api_request))]"
    by blast+
  then have r5: "handleRequest ex_origin (net_const ex_error_500) ex_api_request ex_api_storage =
       (Inr ex_error_500, ex_api_storage, [EFetch (href (url ex_api_request))])"
    using p [of "net_const ex_error_500" ex_api_request ex_api_storage] by simp
  from t5 f_star ok_star rej
  have r6: "partition_entries
        (fst (snd (handleRequest ex_origin (net_const ex_json_vary_star) ex_api_request
                     ex_api_storage))) API_CACHE =
       partition_entries ex_api_storage API_CACHE"
    by blast
  from t6 f_down hit_f
  have r7: "fst (handleRequest ex_origin net_down ex_api_fragment_request ex_api_storage) =
       Inr ex_json_old"
    by (auto split: option.splits)
  from t7 f_down miss_v
  have r8: "fst (handleRequest ex_origin net_down ex_api_text_request ex_api_vary_storage) =
       Inr (offline_fallback API)"
    by (auto split: option.splits)
  from c f_down [of ex_api_request] hit r1 miss r2 f_ok ok acc r3 r4 f_star ok_star rej r6
    f_500 n500 r5 cf hit_f r7 ct hit_v miss_v r8
  show ?thesis by blast
qed

section \<open>Static resources: cache first\<close>

text \<open>
  C2, as stated, fails on the copy: a 2xx response that the cache does not accept is
  returned and not stored, so a later request is not served from the cache. A media file
  under the static path is answered with 206 Partial Content, which is a 2xx status; the
  handler returns it, the static partition holds nothing for the request afterwards, and
  the same request with the network down gets the 503 response, not the bytes fetched
  before.
\<close>

theorem partial_content_not_stored_counterexample:
  "classify ex_origin ex_media_request = STATIC
   \<and> fetch (net_const ex_partial) ex_media_request = Inr ex_partial
   \<and> ok ex_partial
   \<and> fst (handleRequest ex_origin (net_const ex_partial) ex_media_request []) = Inr ex_partial
   \<and> partition_lookup
        (fst (snd (handleRequest ex_origin (net_const ex_partial) ex_media_request [])))
        STATIC_CACHE ex_media_request = None
   \<and> fst (handleRequest ex_origin net_down ex_media_request
            (fst (snd (handleRequest ex_origin (net_const ex_partial) ex_media_request [])))) =
       Inr (offline_fallback STATIC)
   \<and> offline_fallback STATIC \<noteq> ex_partial"
proof -
  have c: "classify ex_origin ex_media_request = STATIC"
    by (simp add: classify_def ex_media_request_def)
  have f: "fetch (net_const ex_partial) ex_media_request = Inr ex_partial"
    and ok: "ok ex_partial"
    by (simp_all add: fetch_def net_const_def ok_def ex_partial_def)
  have rej: "put_rejects ex_media_request ex_partial"
    by (simp add: put_rejects_def ex_partial_def)
  have h: "handleRequest ex_origin (net_const ex_partial) ex_media_request [] =
             (Inr ex_partial, caches_open STATIC_CACHE [],
              [ECachesMatch (href (url ex_media_request)), EFetch (href (url ex_media_request)),
               ECachesOpen STATIC_CACHE,
               ECachePutRejected STATIC_CACHE (href (url ex_media_request))])"
    using c f ok rej
    by (simp add: handleRequest_def handleStaticResource_def Let_def open_and_put_rejected
        put_event_def)
  have l: "partition_lookup (caches_open STATIC_CACHE []) STATIC_CACHE ex_media_request = None"
    by (simp add: partition_lookup_def caches_open_def caches_keys_def cache_match_Nil)
  have m: "caches_match (caches_open STATIC_CACHE []) ex_media_request = None"
    by (simp add: caches_match_caches_open)
  have d: "fetch net_down ex_media_request = Inl (TypeError ''Failed to fetch'')"
    by (simp add: fetch_def net_down_def)
  have later: "fst (handleRequest ex_origin net_down ex_media_request (caches_open STATIC_CACHE [])) =
                 Inr (offline_fallback STATIC)"
    using c m d
    by (simp add: handleRequest_def handleStaticResource_def Let_def offline_fallback_def)
  have ne: "offline_fallback STATIC \<noteq> ex_partial"
    by (simp add: offline_fallback_def ex_partial_def)
  from c f ok l later ne show ?thesis
    unfolding h by simp
qed

text \<open>
  C2, amended. For every request classified STATIC: if \<^verbatim>\<open>caches.match\<close> finds an entry
  for the request, it is returned at once and the lookup is the only platform call (no
  network fetch), the storage being left as it was. If it finds none, the network is
  fetched next. On a 2xx response that response is returned, and a copy is stored in the
  static partition unless the cache rejects the put (for an intercepted request: status
  206 or a \<^verbatim>\<open>Vary\<close> of \<^verbatim>\<open>*\<close>); once stored, every later STATIC GET request with the
  same URL (apart from the fragment) and the same headers, whatever the network does
  then, returns that stored response with no fetch and no change of the storage; when
  the put is rejected no partition gains an entry and a lookup for the request still
  finds nothing. On any other status the response is returned and nothing is stored. On
  a network failure the response is the synthesised 503 "Resource not available
  offline", a plain-text response that is not the offline HTML page, and nothing is
  stored.
\<close>

theorem static_cache_first:
  assumes "classify self_origin request = STATIC"
      and "handleRequest self_origin net request cs = (res, cs', evs)"
  shows "(\<forall>c. caches_match cs request = Some c \<longrightarrow>
            res = Inr c \<and> cs' = cs \<and> evs = [ECachesMatch (href (url request))])
         \<and> (caches_match cs request = None \<longrightarrow>
              take 2 evs = [ECachesMatch (href (url request)), EFetch (href (url request))]
              \<and> (\<forall>r. fetch net request = Inr r \<and> ok r \<and> \<not> put_rejects request r \<longrightarrow>
                    res = Inr r
                    \<and> evs = [ECachesMatch (href (url request)), EFetch (href (url request)),
                             ECachesOpen STATIC_CACHE, ECachePut STATIC_CACHE (href (url request))]
                    \<and> partition_lookup cs' STATIC_CACHE request = Some r
                    \<and> (\<forall>net' request'.
                          classify self_origin request' = STATIC \<and>
                          method request' = ''GET'' \<and>
                          strip_fragment (href (url request')) = strip_fragment (href (url request)) \<and>
                          request_headers request' = request_headers request \<longrightarrow>
                          handleRequest self_origin net' request' cs' =
                            (Inr r, cs', [ECachesMatch (href (url request'))])))
              \<and> (\<forall>r. fetch net request = Inr r \<and> ok r \<and> put_rejects request r \<longrightarrow>
                    res = Inr r
                    \<and> evs = [ECachesMatch (href (url request)), EFetch (href (url request)),
                             ECachesOpen STATIC_CACHE,
                             ECachePutRejected STATIC_CACHE (href (url request))]
                    \<and> (\<forall>name. partition_entries cs' name = partition_entries cs name)
                    \<and> caches_match cs' request = None)
              \<and> (\<forall>r. fetch net request = Inr r \<and> \<not> ok r \<longrightarrow>
                    res = Inr r \<and> cs' = cs \<and>
                    evs = [ECachesMatch (href (url request)), EFetch (href (url request))])
              \<and> (\<forall>e. fetch net request = Inl e \<longrightarrow>
                    res = Inr (offline_fallback STATIC) \<and> cs' = cs \<and>
                    evs = [ECachesMatch (href (url request)), EFetch (href (url request)),
                           EConsoleError ''Static resource failed:'']))
         \<and> (\<forall>r. method request = ''GET'' \<and>
                 (protocol (url request) = ''http:'' \<or> protocol (url request) = ''https:'') \<longrightarrow>
                 put_rejects request r = (status r = 206 \<or> vary_star r))
         \<and> status (offline_fallback STATIC) = 503
         \<and> body (offline_fallback STATIC) = ''Resource not available offline''
         \<and> headers (offline_fallback STATIC) = [(''content-type'', ''text/plain;charset=UTF-8'')]
         \<and> offline_fallback STATIC \<noteq> createOfflinePage"
proof -
  from assms have h: "handleStaticResource net request cs = (res, cs', evs)"
    by (simp add: handleRequest_def)
  have hit: "res = Inr c \<and> cs' = cs \<and> evs = [ECachesMatch (href (url request))]"
    if "caches_match cs request = Some c" for c
    using h that by (simp add: handleStaticResource_def Let_def)
  have miss: "take 2 evs = [ECachesMatch (href (url request)), EFetch (href (url request))]
              \<and> (\<forall>r. fetch net request = Inr r \<and> ok r \<and> \<not> put_rejects request r \<longrightarrow>
                    res = Inr r
                    \<and> evs = [ECachesMatch (href (url request)), EFetch (href (url request)),
                             ECachesOpen STATIC_CACHE, ECachePut STATIC_CACHE (href (url request))]
                    \<and> partition_lookup cs' STATIC_CACHE request = Some r
                    \<and> (\<forall>net' request'.
                          classify self_origin request' = STATIC \<and>
                          method request' = ''GET'' \<and>
                          strip_fragment (href (url request')) = strip_fragment (href (url request)) \<and>
                          request_headers request' = request_headers request \<longrightarrow>
                          handleRequest self_origin net' request' cs' =
                            (Inr r, cs', [ECachesMatch (href (url request'))])))
              \<and> (\<forall>r. fetch net request = Inr r \<and> ok r \<and> put_rejects request r \<longrightarrow>
                    res = Inr r
                    \<and> evs = [ECachesMatch (href (url request)), EFetch (href (url request)),
                             ECachesOpen STATIC_CACHE,
                             ECachePutRejected STATIC_CACHE (href (url request))]
                    \<and> (\<forall>name. partition_entries cs' name = partition_entries cs name)
                    \<and> caches_match cs' request = None)
              \<and> (\<forall>r. fetch net request = Inr r \<and> \<not> ok r \<longrightarrow>
                    res = Inr r \<and> cs' = cs \<and>
                    evs = [ECachesMatch (href (url request)), EFetch (href (url request))])
              \<and> (\<forall>e. fetch net request = Inl e \<longrightarrow>
                    res = Inr (offline_fallback STATIC) \<and> cs' = cs \<and>
                    evs = [ECachesMatch (href (url request)), EFetch (href (url request)),
                           EConsoleError ''Static resource failed:''])"
    if none: "caches_match cs request = None"
  proof (intro conjI allI impI)
    from h none show "take 2 evs = [ECachesMatch (href (url request)), EFetch (href (url request))]"
      by (auto simp: handleStaticResource_def Let_def split: sum.splits if_splits)
  next
    fix r assume a: "fetch net request = Inr r \<and> ok r \<and> \<not> put_rejects request r"
    with h none have res: "res = Inr r"
      and cs': "cs' = open_and_put STATIC_CACHE request r cs"
      and evs: "evs = [ECachesMatch (href (url request)), EFetch (href (url request)),
                       ECachesOpen STATIC_CACHE, ECachePut STATIC_CACHE (href (url request))]"
      by (simp_all add: handleStaticResource_def Let_def put_event_def)
    from res show "res = Inr r" .
    from evs show "evs = [ECachesMatch (href (url request)), EFetch (href (url request)),
                       ECachesOpen STATIC_CACHE, ECachePut STATIC_CACHE (href (url request))]" .
    from a show "partition_lookup cs' STATIC_CACHE request = Some r"
      by (simp add: cs' partition_lookup_open_and_put)
    fix net' :: network and request'
    assume later: "classify self_origin request' = STATIC \<and>
                   method request' = ''GET'' \<and>
                   strip_fragment (href (url request')) = strip_fragment (href (url request)) \<and>
                   request_headers request' = request_headers request"
    from a have get: "method request = ''GET''" by (simp add: put_rejects_def)
    from none a have "caches_match cs' request = Some r"
      unfolding cs' by (intro caches_match_open_and_put) simp_all
    moreover have "caches_match cs' request' = caches_match cs' request"
      using later get by (intro caches_match_cong) simp_all
    ultimately have "caches_match cs' request' = Some r" by simp
    with later show "handleRequest self_origin net' request' cs' =
                       (Inr r, cs', [ECachesMatch (href (url request'))])"
      by (simp add: handleRequest_def handleStaticResource_def Let_def)
  next
    fix r assume a: "fetch net request = Inr r \<and> ok r \<and> put_rejects request r"
    with h none have res: "res = Inr r"
      and cs': "cs' = caches_open STATIC_CACHE cs"
      and evs: "evs = [ECachesMatch (href (url request)), EFetch (href (url request)),
                       ECachesOpen STATIC_CACHE,
                       ECachePutRejected STATIC_CACHE (href (url request))]"
      by (simp_all add: handleStaticResource_def Let_def put_event_def open_and_put_rejected)
    from res show "res = Inr r" .
    from evs show "evs = [ECachesMatch (href (url request)), EFetch (href (url request)),
                       ECachesOpen STATIC_CACHE,
                       ECachePutRejected STATIC_CACHE (href (url request))]" .
    from none show "caches_match cs' request = None"
      by (simp add: cs' caches_match_caches_open)
    fix name show "partition_entries cs' name = partition_entries cs name"
      by (simp add: cs' partition_entries_caches_open)
  next
    fix r assume "fetch net request = Inr r \<and> \<not> ok r"
    with h none show "res = Inr r" and "cs' = cs"
      and "evs = [ECachesMatch (href (url request)), EFetch (href (url request))]"
      by (simp_all add: handleStaticResource_def Let_def)
  next
    fix e assume "fetch net request = Inl e"
    with h none show "res = Inr (offline_fallback STATIC)" and "cs' = cs"
      and "evs = [ECachesMatch (href (url request)), EFetch (href (url request)),
                  EConsoleError ''Static resource failed:'']"
      by (simp_all add: handleStaticResource_def Let_def offline_fallback_def)
  qed
  have rej: "put_rejects request r = (status r = 206 \<or> vary_star r)"
    if "method request = ''GET'' \<and>
        (protocol (url request) = ''http:'' \<or> protocol (url request) = ''https:'')" for r
    using that put_rejects_intercepted [of request r] by blast
  have fb: "status (offline_fallback STATIC) = 503
         \<and> body (offline_fallback STATIC) = ''Resource not available offline''
         \<and> headers (offline_fallback STATIC) = [(''content-type'', ''text/plain;charset=UTF-8'')]"
    by (simp add: offline_fallback_def)
  have np: "offline_fallback STATIC \<noteq> createOfflinePage"
    using offline_page_not_503 by simp
  from hit miss rej fb np show ?thesis by blast
qed

theorem static_cache_first_witness:
  "classify ex_origin ex_static_request = STATIC
   \<and> caches_match ex_storage ex_static_request = Some ex_css
   \<and> handleRequest ex_origin net_down ex_static_request ex_storage =
       (Inr ex_css, ex_storage, [ECachesMatch (href (url ex_static_request))])
   \<and> caches_match [] ex_static_request = None
   \<and> fetch (net_const ex_css) ex_static_request = Inr ex_css \<and> ok ex_css
   \<and> \<not> put_rejects ex_static_request ex_css
   \<and> fst (handleRequest ex_origin (net_const ex_css) ex_static_request []) = Inr ex_css
   \<and> partition_lookup (fst (snd (handleRequest ex_origin (net_const ex_css) ex_static_request [])))
        STATIC_CACHE ex_static_request = Some ex_css
   \<and> handleRequest ex_origin net_down ex_static_request
        (fst (snd (handleRequest ex_origin (net_const ex_css) ex_static_request []))) =
       (Inr ex_css, fst (snd (handleRequest ex_origin (net_const ex_css) ex_static_request [])),
        [ECachesMatch (href (url ex_static_request))])
   \<and> classify ex_origin ex_media_request = STATIC
   \<and> caches_match [] ex_media_request = None
   \<and> fetch (net_const ex_partial) ex_media_request = Inr ex_partial \<and> ok ex_partial
   \<and> put_rejects ex_media_request ex_partial
   \<and> fst (handleRequest ex_origin (net_const ex_partial) ex_media_request []) = Inr ex_partial
   \<and> caches_match (fst (snd (handleRequest ex_origin (net_const ex_partial) ex_media_request [])))
        ex_media_request = None
   \<and> fetch net_down ex_static_request = Inl (TypeError ''Failed to fetch'')
   \<and> fst (handleRequest ex_origin net_down ex_static_request []) = Inr (offline_fallback STATIC)
   \<and> fst (snd (handleRequest ex_origin net_down ex_static_request [])) = []"
proof -
  have c: "classify ex_origin ex_static_request = STATIC"
    and cm: "classify ex_origin ex_media_request = STATIC"
    by (simp_all add: classify_def ex_static_request_def ex_media_request_def)
  have get: "method ex_static_request = ''GET''"
    by (simp add: ex_static_request_def)
  have hit: "caches_match ex_storage ex_static_request = Some ex_css"
    by (simp add: ex_storage_def match_eval ex_static_request_def ex_root_request_def
        ex_css_def ex_page_def)
  have miss: "caches_match [] ex_static_request = None"
    and miss_m: "caches_match [] ex_media_request = None"
    by simp_all
  have f_ok: "fetch (net_const ex_css) ex_static_request = Inr ex_css" and ok: "ok ex_css"
    and acc: "\<not> put_rejects ex_static_request ex_css"
    by (simp_all add: fetch_def net_const_def ok_def ex_css_def match_eval ex_static_request_def)
  have f_206: "fetch (net_const ex_partial) ex_media_request = Inr ex_partial"
    and ok_206: "ok ex_partial" and rej: "put_rejects ex_media_request ex_partial"
    by (simp_all add: fetch_def net_const_def ok_def ex_partial_def put_rejects_def)
  have f_down: "fetch net_down ex_static_request = Inl (TypeError ''Failed to fetch'')"
    by (simp add: fetch_def net_down_def)
  have p: "\<And>net q cs. handleRequest ex_origin net q cs =
      (fst (handleRequest ex_origin net q cs),
       fst (snd (handleRequest ex_origin net q cs)),
       snd (snd (handleRequest ex_origin net q cs)))"
    by simp
  note t1 = static_cache_first [OF c p [of net_down ex_static_request ex_storage]]
  note t2 = static_cache_first [OF c p [of "net_const ex_css" ex_static_request "[]"]]
  note t3 = static_cache_first [OF c p [of net_down ex_static_request "[]"]]
  note t4 = static_cache_first [OF cm p [of "net_const ex_partial" ex_media_request "[]"]]
  from t1 hit have "fst (handleRequest ex_origin net_down ex_static_request ex_storage) = Inr ex_css"
    and "fst (snd (handleRequest ex_origin net_down ex_static_request ex_storage)) = ex_storage"
    and "snd (snd (handleRequest ex_origin net_down ex_static_request ex_storage)) =
           [ECachesMatch (href (url ex_static_request))]"
    by blast+
  then have r1: "handleRequest ex_origin net_down ex_static_request ex_storage =
       (Inr ex_css, ex_storage, [ECachesMatch (href (url ex_static_request))])"
    using p [of net_down ex_static_request ex_storage] by simp
  from t2 miss f_ok ok acc
  have r2: "fst (handleRequest ex_origin (net_const ex_css) ex_static_request []) = Inr ex_css"
    and r3: "partition_lookup (fst (snd (handleRequest ex_origin (net_const ex_css) ex_static_request [])))
        STATIC_CACHE ex_static_request = Some ex_css"
    and later: "\<forall>net' request'.
          classify ex_origin request' = STATIC \<and> method request' = ''GET'' \<and>
          strip_fragment (href (url request')) = strip_fragment (href (url ex_static_request)) \<and>
          request_headers request' = request_headers ex_static_request \<longrightarrow>
          handleRequest ex_origin net' request'
            (fst (snd (handleRequest ex_origin (net_const ex_css) ex_static_request []))) =
          (Inr ex_css, fst (snd (handleRequest ex_origin (net_const ex_css) ex_static_request [])),
           [ECachesMatch (href (url request'))])"
    by blast+
  from later c get
  have r4: "handleRequest ex_origin net_down ex_static_request
        (fst (snd (handleRequest ex_origin (net_const ex_css) ex_static_request []))) =
       (Inr ex_css, fst (snd (handleRequest ex_origin (net_const ex_css) ex_static_request [])),
        [ECachesMatch (href (url ex_static_request))])"
    by blast
  from t3 miss f_down
  have r5: "fst (handleRequest ex_origin net_down ex_static_request []) = Inr (offline_fallback STATIC)"
    and r6: "fst (snd (handleRequest ex_origin net_down ex_static_request [])) = []"
    by blast+
  from t4 miss_m f_206 ok_206 rej
  have r7: "fst (handleRequest ex_origin (net_const ex_partial) ex_media_request []) = Inr ex_partial"
    and r8: "caches_match (fst (snd (handleRequest ex_origin (net_const ex_partial) ex_media_request [])))
        ex_media_request = None"
    by blast+
  from c hit r1 miss f_ok ok acc r2 r3 r4 cm miss_m f_206 ok_206 rej r7 r8 f_down r5 r6
  show ?thesis by blast
qed

section \<open>Which partition a strategy reads and writes\<close>

text \<open>
  C7, as stated, fails on the reads and on the sharing of a partition. The handlers look
  a request up with \<^verbatim>\<open>caches.match\<close> on the whole storage, not on their own partition:
  with the network down, the STATIC request for the start page is answered from the cache
  of the previous build, the static partition holding no entry for it. And the dynamic
  partition is written by two strategies: an entry stored by a NAVIGATION request is read
  back by a DYNAMIC request for the same URL when the network is down, and overwritten by
  it when the network answers.
\<close>

theorem cache_reads_not_partition_scoped_counterexample:
  "classify ex_origin ex_root_request = STATIC
   \<and> partition_lookup ex_storage STATIC_CACHE ex_root_request = None
   \<and> partition_lookup ex_storage ''tutorial-platform-v1'' ex_root_request = Some ex_page
   \<and> fst (handleRequest ex_origin net_down ex_root_request ex_storage) = Inr ex_page
   \<and> classify ex_origin ex_nav_request = NAVIGATION
   \<and> classify ex_origin ex_dyn_request = DYNAMIC
   \<and> fst (handleRequest ex_origin net_down ex_dyn_request
            (fst (snd (handleRequest ex_origin (net_const ex_page) ex_nav_request [])))) =
       Inr ex_page
   \<and> partition_lookup
        (fst (snd (handleRequest ex_origin (net_const ex_json) ex_dyn_request
            (fst (snd (handleRequest ex_origin (net_const ex_page) ex_nav_request []))))))
        DYNAMIC_CACHE ex_nav_request = Some ex_json"
proof -
  have c1: "classify ex_origin ex_root_request = STATIC"
    by (simp add: classify_def ex_root_request_def STATIC_RESOURCES_def)
  have c2: "classify ex_origin ex_nav_request = NAVIGATION"
    by (simp add: classify_def ex_nav_request_def ex_origin_def STATIC_RESOURCES_def)
  have c3: "classify ex_origin ex_dyn_request = DYNAMIC"
    by (simp add: classify_def ex_dyn_request_def ex_origin_def STATIC_RESOURCES_def
        headers_get_def lowercase_def to_lower_def)
  have l1: "partition_lookup ex_storage STATIC_CACHE ex_root_request = None"
    and l2: "partition_lookup ex_storage ''tutorial-platform-v1'' ex_root_request = Some ex_page"
    and m1: "caches_match ex_storage ex_root_request = Some ex_page"
    by (simp_all add: partition_lookup_def ex_storage_def STATIC_CACHE_def CACHE_VERSION_def
        match_eval ex_root_request_def ex_static_request_def ex_page_def ex_css_def)
  have r1: "fst (handleRequest ex_origin net_down ex_root_request ex_storage) = Inr ex_page"
    using c1 m1 by (simp add: handleRequest_def handleStaticResource_def Let_def)
  have okp: "ok ex_page" and okj: "ok ex_json"
    by (simp_all add: ok_def ex_page_def ex_json_def)
  have acc1: "\<not> put_rejects ex_nav_request ex_page"
    and acc2: "\<not> put_rejects ex_dyn_request ex_json"
    by (simp_all add: match_eval ex_nav_request_def ex_dyn_request_def ex_page_def ex_json_def)
  have s1: "fst (snd (handleRequest ex_origin (net_const ex_page) ex_nav_request [])) =
              [(DYNAMIC_CACHE, [new_entry ex_nav_request ex_page])]"
    using c2 okp acc1
    by (simp add: handleRequest_def handleNavigationRequest_def Let_def fetch_def net_const_def
        open_and_put_def caches_open_def caches_keys_def cache_put_in_def cache_put_def)
  have m2: "caches_match [(DYNAMIC_CACHE, [new_entry ex_nav_request ex_page])] ex_dyn_request =
              Some ex_page"
    by (simp add: match_eval ex_nav_request_def ex_dyn_request_def ex_page_def)
  have r2: "fst (handleRequest ex_origin net_down ex_dyn_request
                  [(DYNAMIC_CACHE, [new_entry ex_nav_request ex_page])]) = Inr ex_page"
    using c3 m2
    by (simp add: handleRequest_def handleDynamicResource_def Let_def fetch_def net_down_def)
  have s2: "fst (snd (handleRequest ex_origin (net_const ex_json) ex_dyn_request
                        [(DYNAMIC_CACHE, [new_entry ex_nav_request ex_page])])) =
              open_and_put DYNAMIC_CACHE ex_dyn_request ex_json
                [(DYNAMIC_CACHE, [new_entry ex_nav_request ex_page])]"
    using c3 okj
    by (simp add: handleRequest_def handleDynamicResource_def Let_def fetch_def net_const_def)
  have pe: "partition_entries [(DYNAMIC_CACHE, [new_entry ex_nav_request ex_page])] DYNAMIC_CACHE =
              [new_entry ex_nav_request ex_page]"
    by (simp add: partition_entries_def)
  have m3: "request_matches (href (url ex_dyn_request)) (request_headers ex_dyn_request)
              (new_entry ex_nav_request ex_page)"
    by (simp add: match_eval ex_nav_request_def ex_dyn_request_def ex_page_def)
  have m4: "request_matches (href (url ex_nav_request)) (request_headers ex_nav_request)
              (new_entry ex_dyn_request ex_json)"
    by (simp add: match_eval ex_nav_request_def ex_dyn_request_def ex_json_def)
  have put: "cache_put ex_dyn_request ex_json [new_entry ex_nav_request ex_page] =
               [new_entry ex_dyn_request ex_json]"
    using acc2 m3 by (simp add: cache_put_def)
  have "cache_match [new_entry ex_dyn_request ex_json] ex_nav_request = Some ex_json"
    using m4 by (simp add: cache_match_def) (simp add: ex_nav_request_def new_entry_def)
  then have r3: "partition_lookup (open_and_put DYNAMIC_CACHE ex_dyn_request ex_json
          [(DYNAMIC_CACHE, [new_entry ex_nav_request ex_page])]) DYNAMIC_CACHE ex_nav_request =
        Some ex_json"
    by (simp add: partition_lookup_def map_of_open_and_put pe put)
  from c1 l1 l2 r1 c2 c3 r2 r3 show ?thesis
    unfolding s1 s2 by simp
qed

text \<open>
  C7, amended. Every cache read of a strategy is one \<^verbatim>\<open>caches.match\<close> for the request
  itself, made over all the caches of the storage in creation order and not scoped to the
  strategy's partition: whenever a handler consults the caches (the STATIC handler
  always, the others when the fetch has failed) and the lookup finds a response, the
  answer is that response, and it is the response of an entry of some cache of the
  storage which the request matches: the entry's URL is the request's apart from the
  fragment (no wildcard or prefix matching) and the stored response's \<^verbatim>\<open>Vary\<close> is
  honoured. Every cache write of a strategy goes to that strategy's partition only
  (static for STATIC, api for API, dynamic for NAVIGATION and for DYNAMIC, which share
  it), for the request itself: every cache of another name is left as it was, and in
  every partition the entries that the request does not match are kept, in their order.
\<close>

theorem reads_storage_wide_writes_own_partition:
  assumes "handleRequest self_origin net request cs = (res, cs', evs)"
  shows "(\<forall>k. ECachesMatch k \<in> set evs \<longrightarrow> k = href (url request))
         \<and> (\<forall>c. caches_match cs request = Some c \<and>
                 (classify self_origin request = STATIC \<or> (\<exists>e. fetch net request = Inl e)) \<longrightarrow>
                 res = Inr c \<and>
                 (\<exists>name cache e. (name, cache) \<in> set cs \<and> e \<in> set cache \<and> entry_response e = c \<and>
                    request_matches (href (url request)) (request_headers request) e \<and>
                    strip_fragment (entry_url e) = strip_fragment (href (url request))))
         \<and> (\<forall>name k. ECachePut name k \<in> set evs \<or> ECachePutRejected name k \<in> set evs \<longrightarrow>
                 name = partition_of (classify self_origin request) \<and> k = href (url request))
         \<and> (\<forall>name. name \<noteq> partition_of (classify self_origin request) \<longrightarrow>
                 map_of cs' name = map_of cs name)
         \<and> (\<forall>name.
               filter (\<lambda>e. \<not> request_matches (href (url request)) (request_headers request) e)
                 (partition_entries cs' name) =
               filter (\<lambda>e. \<not> request_matches (href (url request)) (request_headers request) e)
                 (partition_entries cs name))"
proof -
  have lookups: "\<forall>k. ECachesMatch k \<in> set evs \<longrightarrow> k = href (url request)"
    using assms
    by (cases "classify self_origin request")
       (auto simp: handleRequest_def handleStaticResource_def handleApiRequest_def
          handleNavigationRequest_def handleDynamicResource_def Let_def put_event_def
          split: option.splits sum.splits if_splits)
  have reads: "res = Inr c \<and>
                 (\<exists>name cache e. (name, cache) \<in> set cs \<and> e \<in> set cache \<and> entry_response e = c \<and>
                    request_matches (href (url request)) (request_headers request) e \<and>
                    strip_fragment (entry_url e) = strip_fragment (href (url request)))"
    if "caches_match cs request = Some c \<and>
        (classify self_origin request = STATIC \<or> (\<exists>e. fetch net request = Inl e))" for c
  proof -
    from that have m: "caches_match cs request = Some c" by simp
    have "res = Inr c"
      using assms that
      by (cases "classify self_origin request")
         (auto simp: handleRequest_def handleStaticResource_def handleApiRequest_def
            handleNavigationRequest_def handleDynamicResource_def Let_def)
    moreover from caches_match_is_entry [OF m] obtain name cache e
      where "(name, cache) \<in> set cs" "e \<in> set cache" "entry_response e = c"
        and me: "request_matches (href (url request)) (request_headers request) e"
      by blast
    moreover from request_matches_url [OF me]
    have "strip_fragment (entry_url e) = strip_fragment (href (url request))" .
    ultimately show ?thesis by blast
  qed
  from handleRequest_storage_cases [OF assms]
  have writes: "(\<forall>name k. ECachePut name k \<in> set evs \<or> ECachePutRejected name k \<in> set evs \<longrightarrow>
                 name = partition_of (classify self_origin request) \<and> k = href (url request))
         \<and> (\<forall>name. name \<noteq> partition_of (classify self_origin request) \<longrightarrow>
                 map_of cs' name = map_of cs name)
         \<and> (\<forall>name.
               filter (\<lambda>e. \<not> request_matches (href (url request)) (request_headers request) e)
                 (partition_entries cs' name) =
               filter (\<lambda>e. \<not> request_matches (href (url request)) (request_headers request) e)
                 (partition_entries cs name))"
  proof
    assume "cs' = cs \<and> (\<forall>name k. ECachePut name k \<notin> set evs \<and> ECachePutRejected name k \<notin> set evs)"
    then show ?thesis by simp
  next
    assume "\<exists>r. fetch net request = Inr r \<and> ok r \<and> res = Inr r
                 \<and> cs' = open_and_put (partition_of (classify self_origin request)) request r cs
                 \<and> (\<forall>name k. ECachePut name k \<in> set evs \<longrightarrow>
                       \<not> put_rejects request r \<and>
                       name = partition_of (classify self_origin request) \<and>
                       k = href (url request))
                 \<and> (\<forall>name k. ECachePutRejected name k \<in> set evs \<longrightarrow>
                       put_rejects request r \<and>
                       name = partition_of (classify self_origin request) \<and>
                       k = href (url request))"
    then obtain r where
      cs': "cs' = open_and_put (partition_of (classify self_origin request)) request r cs"
      and puts: "\<forall>name k. ECachePut name k \<in> set evs \<longrightarrow>
                       name = partition_of (classify self_origin request) \<and>
                       k = href (url request)"
      and rejs: "\<forall>name k. ECachePutRejected name k \<in> set evs \<longrightarrow>
                       name = partition_of (classify self_origin request) \<and>
                       k = href (url request)"
      by blast
    have kept: "filter (\<lambda>e. \<not> request_matches (href (url request)) (request_headers request) e)
                 (partition_entries cs' name) =
               filter (\<lambda>e. \<not> request_matches (href (url request)) (request_headers request) e)
                 (partition_entries cs name)" for name
      by (simp add: cs' partition_entries_open_and_put cache_put_others)
    from puts rejs kept show ?thesis
      by (auto simp: cs' map_of_open_and_put_other)
  qed
  from lookups reads writes show ?thesis by blast
qed

theorem reads_storage_wide_writes_own_partition_witness:
  "caches_match ex_storage ex_root_request = Some ex_page
   \<and> classify ex_origin ex_root_request = STATIC
   \<and> ECachesMatch (href (url ex_root_request)) \<in>
        set (snd (snd (handleRequest ex_origin net_down ex_root_request ex_storage)))
   \<and> fst (handleRequest ex_origin net_down ex_root_request ex_storage) = Inr ex_page
   \<and> ECachePut STATIC_CACHE (href (url ex_cdn_request)) \<in>
        set (snd (snd (handleRequest ex_origin (net_const ex_css_cors) ex_cdn_request ex_storage)))
   \<and> STATIC_CACHE = partition_of (classify ex_origin ex_cdn_request)
   \<and> ''tutorial-platform-v1'' \<noteq> partition_of (classify ex_origin ex_cdn_request)
   \<and> map_of (fst (snd (handleRequest ex_origin (net_const ex_css_cors) ex_cdn_request ex_storage)))
        ''tutorial-platform-v1'' = map_of ex_storage ''tutorial-platform-v1''
   \<and> filter (\<lambda>e. \<not> request_matches (href (url ex_cdn_request)) (request_headers ex_cdn_request) e)
        (partition_entries
           (fst (snd (handleRequest ex_origin (net_const ex_css_cors) ex_cdn_request ex_storage)))
           STATIC_CACHE) =
       [new_entry ex_static_request ex_css]"
proof -
  let ?h1 = "handleRequest ex_origin net_down ex_root_request ex_storage"
  let ?h2 = "handleRequest ex_origin (net_const ex_css_cors) ex_cdn_request ex_storage"
  have m: "caches_match ex_storage ex_root_request = Some ex_page"
    by (simp add: ex_storage_def match_eval ex_root_request_def ex_static_request_def
        ex_page_def ex_css_def)
  have c1: "classify ex_origin ex_root_request = STATIC"
    by (simp add: classify_def ex_root_request_def STATIC_RESOURCES_def)
  have c2: "classify ex_origin ex_cdn_request = STATIC"
    by (simp add: classify_def ex_cdn_request_def ex_origin_def)
  have e1: "ECachesMatch (href (url ex_root_request)) \<in> set (snd (snd ?h1))"
    using m c1 by (simp add: handleRequest_def handleStaticResource_def Let_def)
  have m2: "caches_match ex_storage ex_cdn_request = None"
    by (simp add: ex_storage_def match_eval ex_cdn_request_def ex_root_request_def
        ex_static_request_def ex_page_def ex_css_def)
  have acc: "\<not> put_rejects ex_cdn_request ex_css_cors"
    by (simp add: match_eval ex_cdn_request_def ex_css_cors_def)
  have e2: "ECachePut STATIC_CACHE (href (url ex_cdn_request)) \<in> set (snd (snd ?h2))"
    using m2 c2 acc
    by (simp add: handleRequest_def handleStaticResource_def Let_def fetch_def net_const_def
        ok_def ex_css_cors_def put_event_def)
  have n: "''tutorial-platform-v1'' \<noteq> partition_of (classify ex_origin ex_cdn_request)"
    by (simp add: c2 partition_of_def STATIC_CACHE_def CACHE_VERSION_def)
  have before: "filter (\<lambda>e. \<not> request_matches (href (url ex_cdn_request))
                              (request_headers ex_cdn_request) e)
                  (partition_entries ex_storage STATIC_CACHE) =
                [new_entry ex_static_request ex_css]"
    by (simp add: partition_entries_def ex_storage_def STATIC_CACHE_def CACHE_VERSION_def
        match_eval ex_cdn_request_def ex_static_request_def)
  have p1: "?h1 = (fst ?h1, fst (snd ?h1), snd (snd ?h1))"
    and p2: "?h2 = (fst ?h2, fst (snd ?h2), snd (snd ?h2))"
    by simp_all
  note t1 = reads_storage_wide_writes_own_partition [OF p1]
  note t2 = reads_storage_wide_writes_own_partition [OF p2]
  from t1 m c1 have r1: "fst ?h1 = Inr ex_page" by blast
  from t2 e2 have r2: "STATIC_CACHE = partition_of (classify ex_origin ex_cdn_request)" by blast
  from t2 n have r3: "map_of (fst (snd ?h2)) ''tutorial-platform-v1'' =
                        map_of ex_storage ''tutorial-platform-v1''" by blast
  from t2 have "filter (\<lambda>e. \<not> request_matches (href (url ex_cdn_request))
                              (request_headers ex_cdn_request) e)
                  (partition_entries (fst (snd ?h2)) STATIC_CACHE) =
                filter (\<lambda>e. \<not> request_matches (href (url ex_cdn_request))
                              (request_headers ex_cdn_request) e)
                  (partition_entries ex_storage STATIC_CACHE)"
    by blast
  with before have r4: "filter (\<lambda>e. \<not> request_matches (href (url ex_cdn_request))
                              (request_headers ex_cdn_request) e)
                  (partition_entries (fst (snd ?h2)) STATIC_CACHE) =
                [new_entry ex_static_request ex_css]" by simp
  from m c1 e1 r1 e2 r2 n r3 r4 show ?thesis by blast
qed

section \<open>Install\<close>

text \<open>
  C5, as stated, fails when one URL of the manifest cannot be fetched. The claim has the
  install store the manifest and then force activation, a failed URL being logged without
  aborting the install. On a network where only one CDN file is unreachable the install
  is indeed not aborted and the failure is logged, but the static partition is opened and
  left empty (the start page, which the network serves, is not stored, and a lookup for
  it finds nothing) and \<^verbatim>\<open>skipWaiting\<close> is not called. The same happens when every
  URL is fetched with a 2xx status and one of the answers is a 206.
\<close>

theorem install_partial_failure_counterexample:
  "net_cdn_partial (resolve_url ex_origin ''/'') = Inr ex_css
   \<and> ok ex_css
   \<and> ''/'' \<in> set STATIC_RESOURCES
   \<and> install ex_origin net_cdn_partial [] =
       (Installed, [(STATIC_CACHE, [])],
        [EConsoleLog ''Service Worker: Installing...'', ECachesOpen STATIC_CACHE,
         EConsoleLog ''Service Worker: Pre-caching app shell'',
         ECacheAddAll STATIC_CACHE STATIC_RESOURCES,
         EConsoleError ''Service Worker: Pre-caching failed''])
   \<and> ESkipWaiting \<notin> set (snd (snd (install ex_origin net_cdn_partial [])))
   \<and> caches_match (fst (snd (install ex_origin net_cdn_partial []))) ex_root_request = None
   \<and> net_favicon_206 (resolve_url ex_origin ''/static/favicon.ico'') = Inr ex_partial
   \<and> ok ex_partial
   \<and> install ex_origin net_favicon_206 [] =
       (Installed, [(STATIC_CACHE, [])],
        [EConsoleLog ''Service Worker: Installing...'', ECachesOpen STATIC_CACHE,
         EConsoleLog ''Service Worker: Pre-caching app shell'',
         ECacheAddAll STATIC_CACHE STATIC_RESOURCES,
         EConsoleError ''Service Worker: Pre-caching failed''])"
proof -
  have sortable: "''https://cdn.jsdelivr.net/npm/sortablejs@latest/Sortable.min.js'' \<in> set STATIC_RESOURCES"
    and favicon: "''/static/favicon.ico'' \<in> set STATIC_RESOURCES"
    and root: "''/'' \<in> set STATIC_RESOURCES"
    by (simp_all add: STATIC_RESOURCES_def)
  have "\<not> (\<exists>r. net_cdn_partial (resolve_url ex_origin
               ''https://cdn.jsdelivr.net/npm/sortablejs@latest/Sortable.min.js'') = Inr r
             \<and> addAll_accepts r)"
    by (simp add: net_cdn_partial_def resolve_url_def)
  with sortable
  have "\<not> (\<forall>u \<in> set STATIC_RESOURCES. http_scheme (resolve_url ex_origin u) \<and>
              (\<exists>r. net_cdn_partial (resolve_url ex_origin u) = Inr r \<and> addAll_accepts r))"
    by blast
  from install_some_rejected [OF this, of "[]"]
  have i1: "install ex_origin net_cdn_partial [] =
       (Installed, [(STATIC_CACHE, [])],
        [EConsoleLog ''Service Worker: Installing...'', ECachesOpen STATIC_CACHE,
         EConsoleLog ''Service Worker: Pre-caching app shell'',
         ECacheAddAll STATIC_CACHE STATIC_RESOURCES,
         EConsoleError ''Service Worker: Pre-caching failed''])"
    by (simp add: caches_open_def caches_keys_def)
  have p206: "net_favicon_206 (resolve_url ex_origin ''/static/favicon.ico'') = Inr ex_partial"
    by (simp add: net_favicon_206_def resolve_url_def ex_origin_def)
  then have "\<not> (\<exists>r. net_favicon_206 (resolve_url ex_origin ''/static/favicon.ico'') = Inr r
                  \<and> addAll_accepts r)"
    by (simp add: addAll_accepts_def ex_partial_def)
  with favicon
  have "\<not> (\<forall>u \<in> set STATIC_RESOURCES. http_scheme (resolve_url ex_origin u) \<and>
              (\<exists>r. net_favicon_206 (resolve_url ex_origin u) = Inr r \<and> addAll_accepts r))"
    by blast
  from install_some_rejected [OF this, of "[]"]
  have i2: "install ex_origin net_favicon_206 [] =
       (Installed, [(STATIC_CACHE, [])],
        [EConsoleLog ''Service Worker: Installing...'', ECachesOpen STATIC_CACHE,
         EConsoleLog ''Service Worker: Pre-caching app shell'',
         ECacheAddAll STATIC_CACHE STATIC_RESOURCES,
         EConsoleError ''Service Worker: Pre-caching failed''])"
    by (simp add: caches_open_def caches_keys_def)
  have "net_cdn_partial (resolve_url ex_origin ''/'') = Inr ex_css" and "ok ex_css"
    and "ok ex_partial"
    by (simp_all add: resolve_url_def net_cdn_partial_def ex_origin_def ok_def ex_css_def
        ex_partial_def)
  with root p206 show ?thesis
    unfolding i1 i2 by (simp add: cache_match_Nil)
qed

text \<open>
  C5, amended. The install listener opens the static partition of the current version
  and is never aborted. When every URL of the pre-cache manifest is fetched with a
  response the cache accepts (a 2xx status other than 206, no \<^verbatim>\<open>Vary\<close> of \<^verbatim>\<open>*\<close>),
  the URLs being http or https and pairwise different, each of them is stored into the
  static partition with the response fetched for it: right after the install a lookup
  for a manifest URL finds that response in the static partition, and a lookup by any
  request that matches the stored entry finds an entry, with no network call; and the
  last call is \<^verbatim>\<open>skipWaiting\<close>, which forces immediate activation. When the fetch of
  some manifest URL fails or its answer is not accepted, nothing is stored (the storage
  is as the opening left it), \<^verbatim>\<open>skipWaiting\<close> is not called, and the failure is
  logged.
\<close>

theorem install_precaches_manifest:
  "fst (install self_origin net cs) = Installed
   \<and> STATIC_CACHE \<in> set (caches_keys (fst (snd (install self_origin net cs))))
   \<and> ((\<forall>u \<in> set STATIC_RESOURCES. http_scheme (resolve_url self_origin u) \<and>
          (\<exists>r. net (resolve_url self_origin u) = Inr r \<and> addAll_accepts r)) \<and>
       distinct (map (\<lambda>u. strip_fragment (resolve_url self_origin u)) STATIC_RESOURCES) \<longrightarrow>
        (\<forall>u \<in> set STATIC_RESOURCES.
           \<exists>r. net (resolve_url self_origin u) = Inr r
              \<and> \<lparr>entry_url = resolve_url self_origin u, entry_headers = [], entry_response = r\<rparr>
                  \<in> set (partition_entries (fst (snd (install self_origin net cs))) STATIC_CACHE)
              \<and> (\<forall>q. method q = ''GET'' \<and>
                      strip_fragment (href (url q)) = strip_fragment (resolve_url self_origin u) \<and>
                      request_headers q = [] \<longrightarrow>
                      partition_lookup (fst (snd (install self_origin net cs))) STATIC_CACHE q =
                        Some r)
              \<and> (\<forall>q. method q = ''GET'' \<and>
                      request_matches (href (url q)) (request_headers q)
                        \<lparr>entry_url = resolve_url self_origin u, entry_headers = [],
                         entry_response = r\<rparr> \<longrightarrow>
                      caches_match (fst (snd (install self_origin net cs))) q \<noteq> None))
        \<and> last (snd (snd (install self_origin net cs))) = ESkipWaiting
        \<and> EConsoleError ''Service Worker: Pre-caching failed'' \<notin>
             set (snd (snd (install self_origin net cs))))
   \<and> (\<not> (\<forall>u \<in> set STATIC_RESOURCES. http_scheme (resolve_url self_origin u) \<and>
             (\<exists>r. net (resolve_url self_origin u) = Inr r \<and> addAll_accepts r)) \<longrightarrow>
        fst (snd (install self_origin net cs)) = caches_open STATIC_CACHE cs
        \<and> ESkipWaiting \<notin> set (snd (snd (install self_origin net cs)))
        \<and> EConsoleError ''Service Worker: Pre-caching failed'' \<in>
             set (snd (snd (install self_origin net cs))))
   \<and> (\<forall>r. addAll_accepts r = (ok r \<and> status r \<noteq> 206 \<and> \<not> vary_star r))"
proof -
  let ?acc = "\<forall>u \<in> set STATIC_RESOURCES. http_scheme (resolve_url self_origin u) \<and>
          (\<exists>r. net (resolve_url self_origin u) = Inr r \<and> addAll_accepts r)"
  let ?dist = "distinct (map (\<lambda>u. strip_fragment (resolve_url self_origin u)) STATIC_RESOURCES)"
  let ?cs' = "fst (snd (install self_origin net cs))"
  let ?evs = "snd (snd (install self_origin net cs))"
  have installed: "fst (install self_origin net cs) = Installed"
    by (simp add: install_def waitUntil_def Let_def split: sum.splits)
  have opened: "STATIC_CACHE \<in> set (caches_keys ?cs')"
  proof (cases "cache_addAll STATIC_CACHE self_origin net STATIC_RESOURCES (caches_open STATIC_CACHE cs)")
    case (Inl e)
    then show ?thesis by (simp add: install_def Let_def caches_open_keys)
  next
    case (Inr cs2)
    then obtain c where "cs2 = set_cache STATIC_CACHE c (caches_open STATIC_CACHE cs)"
      by (auto simp: cache_addAll_def split: sum.splits)
    with Inr show ?thesis
      by (simp add: install_def Let_def caches_keys_set_cache caches_open_keys)
  qed
  have success: "(\<forall>u \<in> set STATIC_RESOURCES.
           \<exists>r. net (resolve_url self_origin u) = Inr r
              \<and> \<lparr>entry_url = resolve_url self_origin u, entry_headers = [], entry_response = r\<rparr>
                  \<in> set (partition_entries ?cs' STATIC_CACHE)
              \<and> (\<forall>q. method q = ''GET'' \<and>
                      strip_fragment (href (url q)) = strip_fragment (resolve_url self_origin u) \<and>
                      request_headers q = [] \<longrightarrow>
                      partition_lookup ?cs' STATIC_CACHE q = Some r)
              \<and> (\<forall>q. method q = ''GET'' \<and>
                      request_matches (href (url q)) (request_headers q)
                        \<lparr>entry_url = resolve_url self_origin u, entry_headers = [],
                         entry_response = r\<rparr> \<longrightarrow>
                      caches_match ?cs' q \<noteq> None))
        \<and> last ?evs = ESkipWaiting
        \<and> EConsoleError ''Service Worker: Pre-caching failed'' \<notin> set ?evs"
    if acc: ?acc and dist: ?dist
  proof -
    from install_all_ok [OF acc dist, of cs] obtain es
      where es: "addAll_fetch self_origin net STATIC_RESOURCES = Inr es"
        and i: "install self_origin net cs =
               (Installed,
                set_cache STATIC_CACHE
                  (filter (\<lambda>x. \<forall>e \<in> set es. \<not> request_matches (entry_url e) (entry_headers e) x)
                     (partition_entries cs STATIC_CACHE) @ es)
                  (caches_open STATIC_CACHE cs),
                [EConsoleLog ''Service Worker: Installing...'', ECachesOpen STATIC_CACHE,
                 EConsoleLog ''Service Worker: Pre-caching app shell'',
                 ECacheAddAll STATIC_CACHE STATIC_RESOURCES,
                 EConsoleLog ''Service Worker: Skip waiting for activation'', ESkipWaiting])"
      by blast
    let ?c = "filter (\<lambda>x. \<forall>e \<in> set es. \<not> request_matches (entry_url e) (entry_headers e) x)
                (partition_entries cs STATIC_CACHE) @ es"
    have m: "map_of ?cs' STATIC_CACHE = Some ?c"
      by (simp add: i map_of_opened_set_cache)
    then have pe: "partition_entries ?cs' STATIC_CACHE = ?c"
      by (simp add: partition_entries_def)
    from addAll_fetch_entries [OF es]
    have fetched: "\<forall>u \<in> set STATIC_RESOURCES.
        \<exists>r. net (resolve_url self_origin u) = Inr r \<and> addAll_accepts r
           \<and> \<lparr>entry_url = resolve_url self_origin u, entry_headers = [], entry_response = r\<rparr> \<in> set es"
      and plain: "\<forall>e \<in> set es. entry_headers e = [] \<and> \<not> vary_star (entry_response e)"
      and urls: "map entry_url es = map (resolve_url self_origin) STATIC_RESOURCES"
      by (auto simp: addAll_accepts_def)
    have "map (\<lambda>e. strip_fragment (entry_url e)) es = map strip_fragment (map entry_url es)"
      by simp
    also have "\<dots> = map (\<lambda>u. strip_fragment (resolve_url self_origin u)) STATIC_RESOURCES"
      unfolding urls by simp
    finally have dist_es: "distinct (map (\<lambda>e. strip_fragment (entry_url e)) es)"
      using dist by simp
    have each: "\<exists>r. net (resolve_url self_origin u) = Inr r
              \<and> \<lparr>entry_url = resolve_url self_origin u, entry_headers = [], entry_response = r\<rparr>
                  \<in> set (partition_entries ?cs' STATIC_CACHE)
              \<and> (\<forall>q. method q = ''GET'' \<and>
                      strip_fragment (href (url q)) = strip_fragment (resolve_url self_origin u) \<and>
                      request_headers q = [] \<longrightarrow>
                      partition_lookup ?cs' STATIC_CACHE q = Some r)
              \<and> (\<forall>q. method q = ''GET'' \<and>
                      request_matches (href (url q)) (request_headers q)
                        \<lparr>entry_url = resolve_url self_origin u, entry_headers = [],
                         entry_response = r\<rparr> \<longrightarrow>
                      caches_match ?cs' q \<noteq> None)"
      if "u \<in> set STATIC_RESOURCES" for u
    proof -
      from fetched that obtain r where r: "net (resolve_url self_origin u) = Inr r"
        and mem: "\<lparr>entry_url = resolve_url self_origin u, entry_headers = [], entry_response = r\<rparr>
                    \<in> set es" by blast
      let ?e = "\<lparr>entry_url = resolve_url self_origin u, entry_headers = [], entry_response = r\<rparr>"
      have in_c: "?e \<in> set ?c" using mem by simp
      have bare: "partition_lookup ?cs' STATIC_CACHE q = Some r"
        if "method q = ''GET'' \<and>
            strip_fragment (href (url q)) = strip_fragment (resolve_url self_origin u) \<and>
            request_headers q = []" for q
        using precached_lookup [OF plain dist_es mem, of q "partition_entries cs STATIC_CACHE"] that
        by (simp add: partition_lookup_def m)
      have any: "caches_match ?cs' q \<noteq> None"
        if "method q = ''GET'' \<and> request_matches (href (url q)) (request_headers q) ?e" for q
      proof -
        from that in_c have "cache_match ?c q \<noteq> None"
          by (intro cache_match_exists [of q ?e]) simp_all
        then obtain r' where "partition_lookup ?cs' STATIC_CACHE q = Some r'"
          by (auto simp: partition_lookup_def m)
        from partition_lookup_caches_match [OF this] show ?thesis by auto
      qed
      from r in_c bare any show ?thesis
        unfolding pe by blast
    qed
    have "last ?evs = ESkipWaiting"
      and "EConsoleError ''Service Worker: Pre-caching failed'' \<notin> set ?evs"
      by (simp_all add: i)
    with each show ?thesis by blast
  qed
  have failure: "?cs' = caches_open STATIC_CACHE cs
        \<and> ESkipWaiting \<notin> set ?evs
        \<and> EConsoleError ''Service Worker: Pre-caching failed'' \<in> set ?evs"
    if "\<not> ?acc"
    unfolding install_some_rejected [OF that] by simp
  have accepts: "\<forall>r. addAll_accepts r = (ok r \<and> status r \<noteq> 206 \<and> \<not> vary_star r)"
    by (simp add: addAll_accepts_def)
  from installed opened success failure accepts show ?thesis by blast
qed

theorem install_precaches_manifest_witness:
  "''/static/css/style.css'' \<in> set STATIC_RESOURCES
   \<and> net_const ex_css (resolve_url ex_origin ''/static/css/style.css'') = Inr ex_css
   \<and> addAll_accepts ex_css
   \<and> partition_lookup (fst (snd (install ex_origin (net_const ex_css) []))) STATIC_CACHE
        ex_bare_style_request = Some ex_css
   \<and> caches_match (fst (snd (install ex_origin (net_const ex_css) []))) ex_static_request \<noteq> None
   \<and> last (snd (snd (install ex_origin (net_const ex_css) []))) = ESkipWaiting
   \<and> ''https://cdn.jsdelivr.net/npm/sortablejs@latest/Sortable.min.js'' \<in> set STATIC_RESOURCES
   \<and> net_cdn_partial (resolve_url ex_origin
         ''https://cdn.jsdelivr.net/npm/sortablejs@latest/Sortable.min.js'') =
       Inl (TypeError ''Failed to fetch'')
   \<and> fst (install ex_origin net_cdn_partial []) = Installed
   \<and> fst (snd (install ex_origin net_cdn_partial [])) = caches_open STATIC_CACHE []
   \<and> EConsoleError ''Service Worker: Pre-caching failed'' \<in>
        set (snd (snd (install ex_origin net_cdn_partial [])))
   \<and> ''/static/favicon.ico'' \<in> set STATIC_RESOURCES
   \<and> net_favicon_206 (resolve_url ex_origin ''/static/favicon.ico'') = Inr ex_partial
   \<and> ok ex_partial \<and> \<not> addAll_accepts ex_partial
   \<and> fst (snd (install ex_origin net_favicon_206 [])) = caches_open STATIC_CACHE []
   \<and> ESkipWaiting \<notin> set (snd (snd (install ex_origin net_favicon_206 [])))"
proof -
  have acc_css: "addAll_accepts ex_css"
    by (simp add: addAll_accepts_def ok_def ex_css_def match_eval)
  have all_ok: "\<forall>u \<in> set STATIC_RESOURCES. http_scheme (resolve_url ex_origin u) \<and>
                  (\<exists>r. net_const ex_css (resolve_url ex_origin u) = Inr r \<and> addAll_accepts r)"
    using acc_css
    by (simp add: STATIC_RESOURCES_def resolve_url_def http_scheme_def ex_origin_def net_const_def)
  have dist: "distinct (map (\<lambda>u. strip_fragment (resolve_url ex_origin u)) STATIC_RESOURCES)"
    by (simp add: STATIC_RESOURCES_def resolve_url_def strip_fragment_def ex_origin_def)
  have mem: "''/static/css/style.css'' \<in> set STATIC_RESOURCES"
    and sortable: "''https://cdn.jsdelivr.net/npm/sortablejs@latest/Sortable.min.js'' \<in> set STATIC_RESOURCES"
    and favicon: "''/static/favicon.ico'' \<in> set STATIC_RESOURCES"
    by (simp_all add: STATIC_RESOURCES_def)
  have style: "net_const ex_css (resolve_url ex_origin ''/static/css/style.css'') = Inr ex_css"
    by (simp add: net_const_def)
  have bare: "method ex_bare_style_request = ''GET'' \<and>
              strip_fragment (href (url ex_bare_style_request)) =
                strip_fragment (resolve_url ex_origin ''/static/css/style.css'') \<and>
              request_headers ex_bare_style_request = []"
    by (simp add: ex_bare_style_request_def resolve_url_def ex_origin_def)
  have page: "method ex_static_request = ''GET'' \<and>
              request_matches (href (url ex_static_request)) (request_headers ex_static_request)
                \<lparr>entry_url = resolve_url ex_origin ''/static/css/style.css'', entry_headers = [],
                 entry_response = ex_css\<rparr>"
    by (simp add: ex_static_request_def resolve_url_def ex_origin_def match_eval ex_css_def)
  have down: "net_cdn_partial (resolve_url ex_origin
               ''https://cdn.jsdelivr.net/npm/sortablejs@latest/Sortable.min.js'') =
              Inl (TypeError ''Failed to fetch'')"
    by (simp add: net_cdn_partial_def resolve_url_def)
  then have "\<not> (http_scheme (resolve_url ex_origin
                   ''https://cdn.jsdelivr.net/npm/sortablejs@latest/Sortable.min.js'') \<and>
                (\<exists>r. net_cdn_partial (resolve_url ex_origin
                   ''https://cdn.jsdelivr.net/npm/sortablejs@latest/Sortable.min.js'') = Inr r \<and>
                   addAll_accepts r))"
    by simp
  with sortable
  have some_fail: "\<not> (\<forall>u \<in> set STATIC_RESOURCES. http_scheme (resolve_url ex_origin u) \<and>
                        (\<exists>r. net_cdn_partial (resolve_url ex_origin u) = Inr r \<and> addAll_accepts r))"
    by blast
  have p206: "net_favicon_206 (resolve_url ex_origin ''/static/favicon.ico'') = Inr ex_partial"
    and ok206: "ok ex_partial" and rej206: "\<not> addAll_accepts ex_partial"
    by (simp_all add: net_favicon_206_def resolve_url_def ex_origin_def ok_def ex_partial_def
        addAll_accepts_def)
  then have "\<not> (http_scheme (resolve_url ex_origin ''/static/favicon.ico'') \<and>
                (\<exists>r. net_favicon_206 (resolve_url ex_origin ''/static/favicon.ico'') = Inr r \<and>
                   addAll_accepts r))"
    by simp
  with favicon
  have some_206: "\<not> (\<forall>u \<in> set STATIC_RESOURCES. http_scheme (resolve_url ex_origin u) \<and>
                        (\<exists>r. net_favicon_206 (resolve_url ex_origin u) = Inr r \<and> addAll_accepts r))"
    by blast
  note t1 = install_precaches_manifest [of ex_origin "net_const ex_css" "[]"]
  note t2 = install_precaches_manifest [of ex_origin net_cdn_partial "[]"]
  note t3 = install_precaches_manifest [of ex_origin net_favicon_206 "[]"]
  from t1 all_ok dist mem
  obtain r where r: "net_const ex_css (resolve_url ex_origin ''/static/css/style.css'') = Inr r"
    and lk: "\<forall>q. method q = ''GET'' \<and>
               strip_fragment (href (url q)) =
                 strip_fragment (resolve_url ex_origin ''/static/css/style.css'') \<and>
               request_headers q = [] \<longrightarrow>
               partition_lookup (fst (snd (install ex_origin (net_const ex_css) []))) STATIC_CACHE q =
                 Some r"
    and any: "\<forall>q. method q = ''GET'' \<and>
               request_matches (href (url q)) (request_headers q)
                 \<lparr>entry_url = resolve_url ex_origin ''/static/css/style.css'', entry_headers = [],
                  entry_response = r\<rparr> \<longrightarrow>
               caches_match (fst (snd (install ex_origin (net_const ex_css) []))) q \<noteq> None"
    by blast
  from r have re: "r = ex_css" by (simp add: net_const_def)
  from lk bare have r1: "partition_lookup (fst (snd (install ex_origin (net_const ex_css) [])))
                           STATIC_CACHE ex_bare_style_request = Some ex_css"
    unfolding re by blast
  from any page have r1': "caches_match (fst (snd (install ex_origin (net_const ex_css) [])))
                             ex_static_request \<noteq> None"
    unfolding re by blast
  from t1 all_ok dist
  have r2: "last (snd (snd (install ex_origin (net_const ex_css) []))) = ESkipWaiting"
    by blast
  from t2 some_fail
  have r3: "fst (install ex_origin net_cdn_partial []) = Installed"
    and r4: "fst (snd (install ex_origin net_cdn_partial [])) = caches_open STATIC_CACHE []"
    and r5: "EConsoleError ''Service Worker: Pre-caching failed'' \<in>
               set (snd (snd (install ex_origin net_cdn_partial [])))"
    by blast+
  from t3 some_206
  have r6: "fst (snd (install ex_origin net_favicon_206 [])) = caches_open STATIC_CACHE []"
    and r7: "ESkipWaiting \<notin> set (snd (snd (install ex_origin net_favicon_206 [])))"
    by blast+
  from mem style acc_css r1 r1' r2 sortable down r3 r4 r5 favicon p206 ok206 rej206 r6 r7
  show ?thesis by blast
qed

section \<open>Navigation requests offline\<close>

text \<open>
  C3. For every request classified NAVIGATION, when the network fetch fails and no cache
  holds the request, the response is exactly the synthesised offline page and the cache
  storage is left as it was. The page has status 200 and content type HTML, carries the
  readable message "You're Offline" and a retry button that reloads the window, and is
  self-contained: its body has no link, no source attribute and no URL reference. It is
  not an error response.
\<close>

theorem navigation_offline_page:
  assumes "classify self_origin request = NAVIGATION"
      and "fetch net request = Inl e"
      and "caches_match cs request = None"
  shows \<open>fst (handleRequest self_origin net request cs) = Inr createOfflinePage
         \<and> fst (snd (handleRequest self_origin net request cs)) = cs
         \<and> status createOfflinePage = 200
         \<and> ok createOfflinePage
         \<and> headers createOfflinePage = [(''Content-Type'', ''text/html'')]
         \<and> includes_str (body createOfflinePage) ''<h1>You're Offline</h1>''
         \<and> includes_str (body createOfflinePage)
              ''<button class="btn" onclick="window.location.reload()">Try Again</button>''
         \<and> \<not> includes_str (body createOfflinePage) ''http''
         \<and> \<not> includes_str (body createOfflinePage) ''src=''
         \<and> \<not> includes_str (body createOfflinePage) ''href=''
         \<and> \<not> includes_str (body createOfflinePage) ''url(''\<close>
proof -
  have "handleRequest self_origin net request cs =
          (Inr createOfflinePage, cs,
           [EFetch (href (url request)),
            EConsoleLog ''Navigation network failed, trying cache:'',
            ECachesMatch (href (url request))])"
    using assms by (simp add: handleRequest_def handleNavigationRequest_def Let_def)
  then show ?thesis
    using offline_page_status offline_page_headers offline_page_message offline_page_retry
      offline_page_self_contained
    by (simp add: ok_def)
qed

theorem navigation_offline_page_witness:
  "classify ex_origin ex_nav_request = NAVIGATION
   \<and> fetch net_down ex_nav_request = Inl (TypeError ''Failed to fetch'')
   \<and> caches_match ex_storage ex_nav_request = None
   \<and> fst (handleRequest ex_origin net_down ex_nav_request ex_storage) = Inr createOfflinePage
   \<and> fst (snd (handleRequest ex_origin net_down ex_nav_request ex_storage)) = ex_storage
   \<and> status createOfflinePage = 200"
proof -
  have c: "classify ex_origin ex_nav_request = NAVIGATION"
    by (simp add: classify_def ex_nav_request_def ex_origin_def STATIC_RESOURCES_def)
  have f: "fetch net_down ex_nav_request = Inl (TypeError ''Failed to fetch'')"
    by (simp add: fetch_def net_down_def)
  have m: "caches_match ex_storage ex_nav_request = None"
    by (simp add: ex_storage_def ex_nav_request_def ex_root_request_def ex_static_request_def
        cache_match_def request_matches_def new_entry_def strip_fragment_def)
  from navigation_offline_page [OF c f m] c f m show ?thesis by simp
qed

end
